theory Spec2Isabelle
  imports Main "HOL-Library.Word"
begin

unbundle bit_operations_syntax

section \<open>Errors, middleware signals and the error handler\<close>

text \<open>
  Every handler of the API ends by calling \<open>next()\<close>, \<open>next(error)\<close> or by sending a
  response with \<open>res.status(n)\<close>. An error is either one made by \<open>createError(status)\<close>
  or an exception thrown by the runtime or a library, which carries no status.
\<close>

datatype error =
    HttpError nat
  | TypeError
  | InvalidSchemeError
  | JwtError
  | CastError
  | ValidationError
  | FetchError

datatype signal =
    Next
  | NextErr error
  | Res nat

text \<open>The error handler of \<open>server.js\<close>: \<open>err.status = err.status || 500\<close>.\<close>

fun errorStatus :: "error \<Rightarrow> nat" where
  "errorStatus (HttpError n) = (if n = 0 then 500 else n)"
| "errorStatus _ = 500"

text \<open>The status code the client of a handler finally sees.\<close>

fun clientStatus :: "signal \<Rightarrow> nat option" where
  "clientStatus Next = None"
| "clientStatus (NextErr e) = Some (errorStatus e)"
| "clientStatus (Res n) = Some n"

section \<open>Authentication and authorisation (fridge-router.js)\<close>

text \<open>The decoded claims of a token, and the user object built from them.\<close>

record payload =
  sub :: string
  given_name :: string
  family_name :: string
  email :: string
  payload_id :: string
  x_permission_level :: int

record user =
  username :: string
  firstName :: string
  lastName :: string
  user_email :: string
  user_id :: string
  permissionLevel :: int

definition READ :: int where "READ = 1"
definition CREATE :: int where "CREATE = 2"
definition UPDATE :: int where "UPDATE = 4"
definition DELETE :: int where "DELETE = 8"

definition PermissionLevels :: "int list" where
  "PermissionLevels = [READ, CREATE, UPDATE, DELETE]"

text \<open>
  The operator \<open>&\<close> of JavaScript converts both operands with ToInt32 and works on
  32-bit two's complement values; \<open>undefined\<close> converts to 0.
\<close>

definition ToInt32 :: "int option \<Rightarrow> 32 word" where
  "ToInt32 v = (case v of None \<Rightarrow> 0 | Some n \<Rightarrow> word_of_int n)"

definition bitand_js :: "int option \<Rightarrow> int option \<Rightarrow> int" where
  "bitand_js a b = sint (ToInt32 a AND ToInt32 b)"

text \<open>
  \<open>req.user?.permissionLevel & permissionLevel ? next() : next(createError(403))\<close>
\<close>

definition hasPermission :: "user option \<Rightarrow> int \<Rightarrow> signal" where
  "hasPermission req_user required =
     (if bitand_js (map_option permissionLevel req_user) (Some required) \<noteq> 0
      then Next
      else NextErr (HttpError 403))"

text \<open>
  \<open>String.prototype.split\<close> with a one-character separator: every occurrence of the
  separator ends a piece, so the result always has at least one piece.
\<close>

fun split_js :: "char \<Rightarrow> string \<Rightarrow> string list" where
  "split_js c [] = [[]]"
| "split_js c (x # xs) =
     (if x = c then [] # split_js c xs
      else (case split_js c xs of
              [] \<Rightarrow> [[x]]
            | w # ws \<Rightarrow> (x # w) # ws))"

text \<open>
  \<open>authenticateJWT\<close>. The header is \<open>None\<close> when the request has no Authorization
  header; destructuring \<open>undefined\<close> then throws a TypeError inside the \<open>try\<close>.
  The array pattern \<open>[authenticationScheme, token]\<close> takes the first two pieces of
  the split header, \<open>undefined\<close> (here \<open>None\<close>) where a piece is missing.
  The library call \<open>jwt.verify(token, process.env.PUBLIC_KEY)\<close> is a parameter: it gets
  the token and returns the decoded claims, or \<open>None\<close> when it throws. Every exception
  ends in \<open>next(createError(401))\<close>, with the exception kept as the cause.
\<close>

definition authenticationScheme :: "string \<Rightarrow> string option" where
  "authenticationScheme h =
     (case split_js CHR '' '' h of [] \<Rightarrow> None | s # _ \<Rightarrow> Some s)"

definition token :: "string \<Rightarrow> string option" where
  "token h =
     (case split_js CHR '' '' h of [] \<Rightarrow> None | [_] \<Rightarrow> None | _ # t # _ \<Rightarrow> Some t)"

definition authenticateJWT_try ::
  "(string option \<Rightarrow> payload option) \<Rightarrow> string option \<Rightarrow> error + user" where
  "authenticateJWT_try jwt_verify authorization =
     (case authorization of
        None \<Rightarrow> Inl TypeError
      | Some h \<Rightarrow>
          (if authenticationScheme h \<noteq> Some ''Bearer'' then Inl InvalidSchemeError
           else (case jwt_verify (token h) of
                   None \<Rightarrow> Inl JwtError
                 | Some p \<Rightarrow>
                     Inr \<lparr> username = sub p,
                           firstName = given_name p,
                           lastName = family_name p,
                           user_email = email p,
                           user_id = payload_id p,
                           permissionLevel = x_permission_level p \<rparr>)))"

text \<open>The result is the signal given to Express, the cause of a failure and \<open>req.user\<close>.\<close>

definition authenticateJWT ::
  "(string option \<Rightarrow> payload option) \<Rightarrow> string option \<Rightarrow> signal \<times> error option \<times> user option" where
  "authenticateJWT jwt_verify authorization =
     (case authenticateJWT_try jwt_verify authorization of
        Inl err \<Rightarrow> (NextErr (HttpError 401), Some err, None)
      | Inr u \<Rightarrow> (Next, None, Some u))"

section \<open>The persisted documents (models/fridge.js, models/product.js)\<close>

text \<open>
  An ObjectId is a number here, a Date the number of milliseconds since the epoch.
  A field that is not required by its schema is optional. The collections are lists, in
  the order in which \<open>find\<close> returns the documents.
\<close>

type_synonym objectId = nat
type_synonym date = int

record fridge =
  fridge_id :: objectId
  location :: "string option"
  name :: string
  ownerId :: objectId
  products :: "objectId list"
  temperature :: "int option"
  webhookUrl :: "string option"
  webhookSecret :: "string option"

record product =
  product_id :: objectId
  expirationDate :: date
  price :: "int option"
  product_name :: string
  fridgeId :: objectId
  category :: "string option"

record store =
  Fridges :: "fridge list"
  Products :: "product list"
  nextId :: objectId

definition emptyStore :: store where
  "emptyStore = \<lparr> Fridges = [], Products = [], nextId = 0 \<rparr>"

subsection \<open>Queries: each returns its result and the store it leaves\<close>

text \<open>\<open>Fridge.find({ webhookUrl: { $exists: true } })\<close>\<close>

definition Fridge_find_webhookUrl_exists :: "store \<Rightarrow> fridge list \<times> store" where
  "Fridge_find_webhookUrl_exists st = (filter (\<lambda>f. webhookUrl f \<noteq> None) (Fridges st), st)"

text \<open>\<open>Fridge.findById(id)\<close>, \<open>Product.findById(id)\<close> and \<open>Fridge.findOne({ name })\<close>\<close>

definition Fridge_findById :: "objectId \<Rightarrow> store \<Rightarrow> fridge option \<times> store" where
  "Fridge_findById i st = (find (\<lambda>f. fridge_id f = i) (Fridges st), st)"

definition Product_findById :: "objectId \<Rightarrow> store \<Rightarrow> product option \<times> store" where
  "Product_findById i st = (find (\<lambda>p. product_id p = i) (Products st), st)"

definition Fridge_findOne_name :: "string \<Rightarrow> store \<Rightarrow> fridge option \<times> store" where
  "Fridge_findOne_name n st = (find (\<lambda>f. name f = n) (Fridges st), st)"

section \<open>The expiration scan (services/webhook.js)\<close>

text \<open>
  The inner loop of \<open>checkFridges\<close> over \<open>fridge.products\<close>. \<open>Product.findById\<close>
  gives \<open>null\<close> for an id with no document, and reading \<open>product.expirationDate\<close> of
  \<open>null\<close> throws a TypeError, which nothing in \<open>checkFridges\<close> catches.
\<close>

fun checkProducts ::
  "date \<Rightarrow> objectId list \<Rightarrow> product list \<Rightarrow> store \<Rightarrow> (error + product list) \<times> store" where
  "checkProducts date [] expiredProducts st = (Inr expiredProducts, st)"
| "checkProducts date (productId # rest) expiredProducts st =
     (case Product_findById productId st of
        (None, st') \<Rightarrow> (Inl TypeError, st')
      | (Some product, st') \<Rightarrow>
          (if expirationDate product < date
           then checkProducts date rest (expiredProducts @ [product]) st'
           else checkProducts date rest expiredProducts st'))"

text \<open>
  The outer loop over the fridges found. Each fridge document gets the property
  \<open>expiredProducts\<close>, which is not a field of the schema and is never saved: the result
  pairs the fridge with it.
\<close>

fun checkEach ::
  "date \<Rightarrow> fridge list \<Rightarrow> store \<Rightarrow> (error + (fridge \<times> product list) list) \<times> store" where
  "checkEach date [] st = (Inr [], st)"
| "checkEach date (fridge # rest) st =
     (case (if length (products fridge) > 0
            then checkProducts date (products fridge) [] st
            else (Inr [], st)) of
        (Inl err, st') \<Rightarrow> (Inl err, st')
      | (Inr expiredProducts, st') \<Rightarrow>
          (case checkEach date rest st' of
             (Inl err, st'') \<Rightarrow> (Inl err, st'')
           | (Inr others, st'') \<Rightarrow> (Inr ((fridge, expiredProducts) # others), st'')))"

definition checkFridges ::
  "date \<Rightarrow> store \<Rightarrow> (error + (fridge \<times> product list) list) \<times> store" where
  "checkFridges date st =
     (case Fridge_find_webhookUrl_exists st of
        (webhookFridges, st') \<Rightarrow> checkEach date webhookFridges st')"

section \<open>The cleanout trigger (FridgeController.cleanOut)\<close>

text \<open>
  One outbound call: the URL and the JSON body. The network is a parameter \<open>fetch\<close>,
  which either resolves to a response with a status or rejects.
\<close>

record request =
  url :: string
  body_fridgeId :: objectId
  body_expiredProducts :: "product list"
  body_secret :: "string option"

datatype fetch_result = Response nat | Rejected

definition ok :: "nat \<Rightarrow> bool" where
  "ok status = (200 \<le> status \<and> status \<le> 299)"

text \<open>The template string \<open>`${fridge.webhookUrl}`\<close> prints a missing value as \<open>undefined\<close>.\<close>

definition webhookRequest :: "fridge \<times> product list \<Rightarrow> request" where
  "webhookRequest fe =
     \<lparr> url = (case webhookUrl (fst fe) of None \<Rightarrow> ''undefined'' | Some u \<Rightarrow> u),
       body_fridgeId = fridge_id (fst fe),
       body_expiredProducts = snd fe,
       body_secret = webhookSecret (fst fe) \<rparr>"

text \<open>
  The loop over the scanned fridges, with the calls made so far. A rejected \<open>fetch\<close>
  throws out of the loop. For a response that is not ok the code builds an Error object
  and drops it.
\<close>

fun dispatch ::
  "(request \<Rightarrow> fetch_result) \<Rightarrow> (fridge \<times> product list) list \<Rightarrow> request list
     \<Rightarrow> error option \<times> request list" where
  "dispatch fetch [] sent = (None, sent)"
| "dispatch fetch (fe # rest) sent =
     (case fetch (webhookRequest fe) of
        Rejected \<Rightarrow> (Some FetchError, sent @ [webhookRequest fe])
      | Response status \<Rightarrow>
          (if \<not> ok status
           then (let error = (''Webhook error'', status)
                 in dispatch fetch rest (sent @ [webhookRequest fe]))
           else dispatch fetch rest (sent @ [webhookRequest fe])))"

text \<open>
  \<open>cleanOut\<close>, with \<open>new Date()\<close> as the parameter \<open>currentDate\<close>. The result is the
  signal, the outbound calls made, in order, and the store left.
\<close>

definition cleanOut ::
  "date \<Rightarrow> (request \<Rightarrow> fetch_result) \<Rightarrow> store \<Rightarrow> signal \<times> request list \<times> store" where
  "cleanOut currentDate fetch st =
     (case checkFridges currentDate st of
        (Inl err, st') \<Rightarrow> (NextErr err, [], st')
      | (Inr webhookFridges, st') \<Rightarrow>
          (case dispatch fetch webhookFridges [] of
             (Some err, sent) \<Rightarrow> (NextErr err, sent, st')
           | (None, sent) \<Rightarrow> (Res 204, sent, st')))"

section \<open>Writes, validation and the values of a request\<close>

text \<open>
  A value of a JSON body is missing (\<open>None\<close>) or present. \<open>!v\<close> holds of a missing
  value, of the empty string and of the number 0.
\<close>

definition truthy :: "string option \<Rightarrow> bool" where
  "truthy v = (case v of None \<Rightarrow> False | Some s \<Rightarrow> s \<noteq> [])"

definition truthyNumber :: "int option \<Rightarrow> bool" where
  "truthyNumber v = (case v of None \<Rightarrow> False | Some n \<Rightarrow> n \<noteq> 0)"

text \<open>
  A route parameter or a user id is a string that Mongoose casts to an ObjectId;
  \<open>None\<close> stands for a string it cannot cast. The \<open>catch\<close> blocks answer a CastError of
  kind ObjectId with 404 and pass every other error on.
\<close>

type_synonym param = "objectId option"

fun catchObjectId :: "error \<Rightarrow> signal" where
  "catchObjectId CastError = NextErr (HttpError 404)"
| "catchObjectId err = NextErr err"

text \<open>
  The setter \<open>trim: true\<close> of the fields \<open>name\<close> and \<open>location\<close> is
  \<open>String.prototype.trim\<close>, which strips white space and line terminators from both
  ends. A character here is a code unit below 256; the ones that \<open>trim\<close> strips are
  9 to 13 (tab, line feed, vertical tab, form feed, carriage return), 32 (space) and
  160 (no-break space).
\<close>

definition whitespace :: "char \<Rightarrow> bool" where
  "whitespace c =
     (let n = (of_char c :: nat) in (9 \<le> n \<and> n \<le> 13) \<or> n = 32 \<or> n = 160)"

definition trim :: "string \<Rightarrow> string" where
  "trim s = rev (dropWhile whitespace (rev (dropWhile whitespace s)))"

text \<open>
  The validators of the two schemas, run by \<open>save\<close> on the document: required strings
  are not empty, \<open>name\<close> and \<open>location\<close> have at most 256 characters.
\<close>

definition validFridge :: "fridge \<Rightarrow> bool" where
  "validFridge f =
     (name f \<noteq> [] \<and> length (name f) \<le> 256 \<and>
      (case location f of None \<Rightarrow> True | Some l \<Rightarrow> length l \<le> 256))"

definition validProduct :: "product \<Rightarrow> bool" where
  "validProduct p = (product_name p \<noteq> [])"

text \<open>
  \<open>save\<close> of a new document inserts it under a fresh id; \<open>save\<close> of a document that was
  read replaces the stored one with the same id. A failed validation throws and writes
  nothing.
\<close>

definition Fridge_insert :: "fridge \<Rightarrow> store \<Rightarrow> (error + fridge) \<times> store" where
  "Fridge_insert f st =
     (if \<not> validFridge f then (Inl ValidationError, st)
      else (let doc = f\<lparr> fridge_id := nextId st \<rparr>
            in (Inr doc, st\<lparr> Fridges := Fridges st @ [doc], nextId := Suc (nextId st) \<rparr>)))"

definition Fridge_save :: "fridge \<Rightarrow> store \<Rightarrow> (error + unit) \<times> store" where
  "Fridge_save f st =
     (if \<not> validFridge f then (Inl ValidationError, st)
      else (Inr (),
            st\<lparr> Fridges := map (\<lambda>g. if fridge_id g = fridge_id f then f else g) (Fridges st) \<rparr>))"

definition Product_insert :: "product \<Rightarrow> store \<Rightarrow> (error + product) \<times> store" where
  "Product_insert p st =
     (if \<not> validProduct p then (Inl ValidationError, st)
      else (let doc = p\<lparr> product_id := nextId st \<rparr>
            in (Inr doc, st\<lparr> Products := Products st @ [doc], nextId := Suc (nextId st) \<rparr>)))"

definition Product_save :: "product \<Rightarrow> store \<Rightarrow> (error + unit) \<times> store" where
  "Product_save p st =
     (if \<not> validProduct p then (Inl ValidationError, st)
      else (Inr (),
            st\<lparr> Products := map (\<lambda>q. if product_id q = product_id p then p else q) (Products st) \<rparr>))"

text \<open>\<open>Product.deleteOne({ _id })\<close> and \<open>fridge.deleteOne()\<close> remove the first match.\<close>

fun deleteFirst :: "('a \<Rightarrow> bool) \<Rightarrow> 'a list \<Rightarrow> 'a list" where
  "deleteFirst P [] = []"
| "deleteFirst P (x # xs) = (if P x then xs else x # deleteFirst P xs)"

definition Product_deleteOne :: "objectId \<Rightarrow> store \<Rightarrow> store" where
  "Product_deleteOne i st = st\<lparr> Products := deleteFirst (\<lambda>p. product_id p = i) (Products st) \<rparr>"

definition Fridge_deleteOne :: "objectId \<Rightarrow> store \<Rightarrow> store" where
  "Fridge_deleteOne i st = st\<lparr> Fridges := deleteFirst (\<lambda>f. fridge_id f = i) (Fridges st) \<rparr>"

section \<open>Webhook registration (FridgeController.registerWebhook)\<close>

record webhookBody =
  body_webhookUrl :: "string option"
  body_webhookSecret :: "string option"

text \<open>
  The only \<open>catch\<close> of \<open>registerWebhook\<close> is \<open>next(error)\<close>: a parameter that is no
  ObjectId is passed on as it is. The values stored are the strings of the body.
\<close>

definition registerWebhook :: "param \<Rightarrow> webhookBody \<Rightarrow> store \<Rightarrow> signal \<times> store" where
  "registerWebhook req_params_id body st =
     (case req_params_id of
        None \<Rightarrow> (NextErr CastError, st)
      | Some i \<Rightarrow>
          (case Fridge_findById i st of
             (None, st1) \<Rightarrow> (NextErr (HttpError 404), st1)
           | (Some fridge, st1) \<Rightarrow>
               (if \<not> truthy (body_webhookUrl body) \<or> \<not> truthy (body_webhookSecret body)
                then (NextErr (HttpError 400), st1)
                else (case Fridge_save (fridge\<lparr> webhookUrl := body_webhookUrl body,
                                               webhookSecret := body_webhookSecret body \<rparr>) st1 of
                        (Inl err, st2) \<Rightarrow> (NextErr err, st2)
                      | (Inr _, st2) \<Rightarrow> (Res 204, st2)))))"

section \<open>The other handlers that write (FridgeController, ProductController)\<close>

record fridgeBody =
  body_name :: "string option"
  body_location :: "string option"
  body_temperature :: "int option"

text \<open>
  \<open>create\<close>: the new document has the three fields \<open>location\<close>, \<open>name\<close> and
  \<open>ownerId\<close>; the array \<open>products\<close> starts empty and no other field is set. A user id
  that is no ObjectId fails the validation of \<open>ownerId\<close>.
\<close>

definition FridgeController_create :: "param \<Rightarrow> fridgeBody \<Rightarrow> store \<Rightarrow> signal \<times> store" where
  "FridgeController_create req_user_id body st =
     (case body_name body of
        None \<Rightarrow> (NextErr (HttpError 400), st)
      | Some n \<Rightarrow>
          (if n = [] then (NextErr (HttpError 400), st)
           else (case Fridge_findOne_name (trim n) st of
                   (Some existingFridge, st1) \<Rightarrow> (NextErr (HttpError 409), st1)
                 | (None, st1) \<Rightarrow>
                     (case req_user_id of
                        None \<Rightarrow> (NextErr ValidationError, st1)
                      | Some uid \<Rightarrow>
                          (case Fridge_insert
                                  \<lparr> fridge_id = nextId st1,
                                    location = map_option trim (body_location body),
                                    name = trim n,
                                    ownerId = uid,
                                    products = [],
                                    temperature = None,
                                    webhookUrl = None,
                                    webhookSecret = None \<rparr> st1 of
                             (Inl err, st2) \<Rightarrow> (NextErr err, st2)
                           | (Inr fridge, st2) \<Rightarrow> (Res 201, st2))))))"

text \<open>The three guarded assignments of \<open>putEdit\<close> and \<open>patchEdit\<close>.\<close>

definition assignFridge :: "fridgeBody \<Rightarrow> fridge \<Rightarrow> fridge" where
  "assignFridge body fridge =
     (let f1 = (case body_name body of
                  None \<Rightarrow> fridge
                | Some n \<Rightarrow> if n = [] then fridge else fridge\<lparr> name := trim n \<rparr>);
          f2 = (if truthy (body_location body)
                then f1\<lparr> location := map_option trim (body_location body) \<rparr> else f1)
      in (if truthyNumber (body_temperature body)
          then f2\<lparr> temperature := body_temperature body \<rparr> else f2))"

definition FridgeController_putEdit :: "param \<Rightarrow> fridgeBody \<Rightarrow> store \<Rightarrow> signal \<times> store" where
  "FridgeController_putEdit req_params_id body st =
     (case req_params_id of
        None \<Rightarrow> (catchObjectId CastError, st)
      | Some i \<Rightarrow>
          (case Fridge_findById i st of
             (None, st1) \<Rightarrow> (NextErr (HttpError 404), st1)
           | (Some fridge, st1) \<Rightarrow>
               (if \<not> truthy (body_name body) then (NextErr (HttpError 400), st1)
                else if truthy (location fridge) \<and> \<not> truthy (body_location body)
                then (NextErr (HttpError 400), st1)
                else if truthyNumber (temperature fridge) \<and> \<not> truthyNumber (body_temperature body)
                then (NextErr (HttpError 400), st1)
                else (case Fridge_save (assignFridge body fridge) st1 of
                        (Inl err, st2) \<Rightarrow> (catchObjectId err, st2)
                      | (Inr _, st2) \<Rightarrow> (Res 200, st2)))))"

definition FridgeController_patchEdit :: "param \<Rightarrow> fridgeBody \<Rightarrow> store \<Rightarrow> signal \<times> store" where
  "FridgeController_patchEdit req_params_id body st =
     (case req_params_id of
        None \<Rightarrow> (catchObjectId CastError, st)
      | Some i \<Rightarrow>
          (case Fridge_findById i st of
             (None, st1) \<Rightarrow> (NextErr (HttpError 404), st1)
           | (Some fridge, st1) \<Rightarrow>
               (if \<not> truthy (body_name body) \<and> \<not> truthy (body_location body)
                     \<and> \<not> truthyNumber (body_temperature body)
                then (NextErr (HttpError 400), st1)
                else (case Fridge_save (assignFridge body fridge) st1 of
                        (Inl err, st2) \<Rightarrow> (catchObjectId err, st2)
                      | (Inr _, st2) \<Rightarrow> (Res 200, st2)))))"

text \<open>\<open>delete\<close> removes the products listed in the fridge, then the fridge.\<close>

fun deleteProducts :: "objectId list \<Rightarrow> store \<Rightarrow> store" where
  "deleteProducts [] st = st"
| "deleteProducts (productId # rest) st = deleteProducts rest (Product_deleteOne productId st)"

definition FridgeController_delete :: "param \<Rightarrow> store \<Rightarrow> signal \<times> store" where
  "FridgeController_delete req_params_id st =
     (case req_params_id of
        None \<Rightarrow> (catchObjectId CastError, st)
      | Some i \<Rightarrow>
          (case Fridge_findById i st of
             (None, st1) \<Rightarrow> (NextErr (HttpError 404), st1)
           | (Some fridge, st1) \<Rightarrow>
               (Res 204, Fridge_deleteOne (fridge_id fridge) (deleteProducts (products fridge) st1))))"

record productBody =
  body_expirationDate :: "string option"
  body_product_name :: "string option"
  body_price :: "int option"
  body_category :: "string option"
  body_fridgeId :: "string option"

text \<open>
  \<open>ProductController.create\<close>. The two checks of the body call \<open>next\<close> without
  returning, so the handler goes on and may signal more than once: the result lists the
  signals in order. \<open>Date.parse\<close> is a parameter, \<open>None\<close> for NaN; \<open>new Date\<close> of a
  missing or unparsable value is an invalid date, which fails the validation, as do a
  missing name and a fridge id that is no ObjectId.
\<close>

definition ProductController_create ::
  "(string \<Rightarrow> date option) \<Rightarrow> param \<Rightarrow> productBody \<Rightarrow> store \<Rightarrow> signal list \<times> store" where
  "ProductController_create Date_parse req_fridgeId body st =
     (let s1 = (if \<not> truthy (body_product_name body) then [NextErr (HttpError 400)] else []);
          date = (case body_expirationDate body of None \<Rightarrow> None | Some s \<Rightarrow> Date_parse s);
          s2 = (if \<not> truthy (body_expirationDate body) \<or> date = None
                then [NextErr (HttpError 400)] else [])
      in (case (date, body_product_name body, req_fridgeId) of
            (Some d, Some n, Some fid) \<Rightarrow>
              (case Product_insert
                      \<lparr> product_id = nextId st,
                        expirationDate = d,
                        price = body_price body,
                        product_name = n,
                        fridgeId = fid,
                        category = body_category body \<rparr> st of
                 (Inl err, st1) \<Rightarrow> (s1 @ s2 @ [NextErr err], st1)
               | (Inr product, st1) \<Rightarrow>
                   (case Fridge_findById fid st1 of
                      (None, st2) \<Rightarrow> (s1 @ s2 @ [NextErr (HttpError 404)], st2)
                    | (Some fridge, st2) \<Rightarrow>
                        (case Fridge_save
                                (fridge\<lparr> products := products fridge @ [product_id product] \<rparr>) st2 of
                           (Inl err, st3) \<Rightarrow> (s1 @ s2 @ [NextErr err], st3)
                         | (Inr _, st3) \<Rightarrow> (s1 @ s2 @ [Res 201], st3))))
          | _ \<Rightarrow> (s1 @ s2 @ [NextErr ValidationError], st)))"

text \<open>
  The four guarded assignments of \<open>putEdit\<close> and \<open>patchEdit\<close>. The string given for
  \<open>expirationDate\<close> is cast by Mongoose (the parameter \<open>castDate\<close>); a string it cannot
  cast makes \<open>save\<close> throw a validation error.
\<close>

definition assignProduct ::
  "(string \<Rightarrow> date option) \<Rightarrow> productBody \<Rightarrow> product \<Rightarrow> error + product" where
  "assignProduct castDate body product =
     (let p1 = (case body_product_name body of
                  None \<Rightarrow> product
                | Some n \<Rightarrow> if n = [] then product else product\<lparr> product_name := n \<rparr>);
          p2 = (if truthyNumber (body_price body) then p1\<lparr> price := body_price body \<rparr> else p1);
          p3 = (if truthy (body_category body) then p2\<lparr> category := body_category body \<rparr> else p2)
      in (case body_expirationDate body of
            None \<Rightarrow> Inr p3
          | Some s \<Rightarrow>
              (if s = [] then Inr p3
               else (case castDate s of
                       None \<Rightarrow> Inl ValidationError
                     | Some d \<Rightarrow> Inr (p3\<lparr> expirationDate := d \<rparr>)))))"

definition ProductController_putEdit ::
  "(string \<Rightarrow> date option) \<Rightarrow> param \<Rightarrow> productBody \<Rightarrow> store \<Rightarrow> signal \<times> store" where
  "ProductController_putEdit castDate req_params_id body st =
     (case req_params_id of
        None \<Rightarrow> (catchObjectId CastError, st)
      | Some i \<Rightarrow>
          (case Product_findById i st of
             (None, st1) \<Rightarrow> (NextErr (HttpError 404), st1)
           | (Some product, st1) \<Rightarrow>
               (if \<not> truthy (body_expirationDate body) \<or> \<not> truthy (body_product_name body)
                then (NextErr (HttpError 400), st1)
                else if truthyNumber (price product) \<and> \<not> truthyNumber (body_price body)
                then (NextErr (HttpError 400), st1)
                else if truthy (category product) \<and> \<not> truthy (body_category body)
                then (NextErr (HttpError 400), st1)
                else (case assignProduct castDate body product of
                        Inl err \<Rightarrow> (catchObjectId err, st1)
                      | Inr edited \<Rightarrow>
                          (case Product_save edited st1 of
                             (Inl err, st2) \<Rightarrow> (catchObjectId err, st2)
                           | (Inr _, st2) \<Rightarrow> (Res 200, st2))))))"

definition ProductController_patchEdit ::
  "(string \<Rightarrow> date option) \<Rightarrow> param \<Rightarrow> productBody \<Rightarrow> store \<Rightarrow> signal \<times> store" where
  "ProductController_patchEdit castDate req_params_id body st =
     (case req_params_id of
        None \<Rightarrow> (catchObjectId CastError, st)
      | Some i \<Rightarrow>
          (case Product_findById i st of
             (None, st1) \<Rightarrow> (NextErr (HttpError 404), st1)
           | (Some product, st1) \<Rightarrow>
               (if \<not> truthy (body_expirationDate body) \<and> \<not> truthy (body_fridgeId body)
                     \<and> \<not> truthy (body_product_name body) \<and> \<not> truthyNumber (body_price body)
                     \<and> \<not> truthy (body_category body)
                then (NextErr (HttpError 400), st1)
                else (case assignProduct castDate body product of
                        Inl err \<Rightarrow> (catchObjectId err, st1)
                      | Inr edited \<Rightarrow>
                          (case Product_save edited st1 of
                             (Inl err, st2) \<Rightarrow> (catchObjectId err, st2)
                           | (Inr _, st2) \<Rightarrow> (Res 200, st2))))))"

text \<open>
  \<open>ProductController.delete\<close>: \<open>indexOf\<close> and \<open>splice\<close> take the first occurrence of
  the product's id out of \<open>fridge.products\<close>, if there is one.
\<close>

definition ProductController_delete :: "param \<Rightarrow> param \<Rightarrow> store \<Rightarrow> signal \<times> store" where
  "ProductController_delete req_params_id req_fridgeId st =
     (case req_params_id of
        None \<Rightarrow> (catchObjectId CastError, st)
      | Some i \<Rightarrow>
          (case Product_findById i st of
             (None, st1) \<Rightarrow> (NextErr (HttpError 404), st1)
           | (Some product, st1) \<Rightarrow>
               (case req_fridgeId of
                  None \<Rightarrow> (catchObjectId CastError, st1)
                | Some fid \<Rightarrow>
                    (case Fridge_findById fid st1 of
                       (None, st2) \<Rightarrow> (NextErr (HttpError 404), st2)
                     | (Some fridge, st2) \<Rightarrow>
                         (case Fridge_save
                                 (fridge\<lparr> products := remove1 (product_id product) (products fridge) \<rparr>)
                                 st2 of
                            (Inl err, st3) \<Rightarrow> (catchObjectId err, st3)
                          | (Inr _, st3) \<Rightarrow> (Res 204, Product_deleteOne i st3))))))"

section \<open>The states the public operations reach\<close>

text \<open>
  One constructor for each route that can write, with the values of its request. The
  routes that only read (\<open>findAll\<close>, \<open>findById\<close>) and the user routes, which write to
  the collection of users only, leave fridges and products as they are. The middleware
  in front of a handler can only stop a request, so every store a client can reach is
  reached by some list of these operations from the empty store.
\<close>

datatype operation =
    CreateFridge param fridgeBody
  | PutFridge param fridgeBody
  | PatchFridge param fridgeBody
  | DeleteFridge param
  | RegisterWebhook param webhookBody
  | CleanOut date "request \<Rightarrow> fetch_result"
  | CreateProduct "string \<Rightarrow> date option" param productBody
  | PutProduct "string \<Rightarrow> date option" param productBody
  | PatchProduct "string \<Rightarrow> date option" param productBody
  | DeleteProduct param param

fun perform :: "operation \<Rightarrow> store \<Rightarrow> store" where
  "perform (CreateFridge uid body) st = snd (FridgeController_create uid body st)"
| "perform (PutFridge i body) st = snd (FridgeController_putEdit i body st)"
| "perform (PatchFridge i body) st = snd (FridgeController_patchEdit i body st)"
| "perform (DeleteFridge i) st = snd (FridgeController_delete i st)"
| "perform (RegisterWebhook i body) st = snd (registerWebhook i body st)"
| "perform (CleanOut currentDate fetch) st = snd (snd (cleanOut currentDate fetch st))"
| "perform (CreateProduct Date_parse fid body) st = snd (ProductController_create Date_parse fid body st)"
| "perform (PutProduct castDate i body) st = snd (ProductController_putEdit castDate i body st)"
| "perform (PatchProduct castDate i body) st = snd (ProductController_patchEdit castDate i body st)"
| "perform (DeleteProduct i fid) st = snd (ProductController_delete i fid st)"

inductive reachable :: "store \<Rightarrow> bool" where
  reachable_empty: "reachable emptyStore"
| reachable_perform: "reachable st \<Longrightarrow> reachable (perform operation st)"

text \<open>Running a list of operations, the first one first.\<close>

fun performAll :: "operation list \<Rightarrow> store \<Rightarrow> store" where
  "performAll [] st = st"
| "performAll (operation # rest) st = performAll rest (perform operation st)"

section \<open>The notions of the specification\<close>

text \<open>
  An item is expired at an instant when its expiration date is strictly earlier. The
  members of a collection are the items its list \<open>products\<close> refers to; a reference
  resolves when an item with that id is stored. A collection is monitored when it has
  a notification target, and a target is complete when it has its secret.
\<close>

definition expired :: "date \<Rightarrow> product \<Rightarrow> bool" where
  "expired now p = (expirationDate p < now)"

definition lookup :: "store \<Rightarrow> objectId \<Rightarrow> product option" where
  "lookup st i = find (\<lambda>p. product_id p = i) (Products st)"

definition members :: "store \<Rightarrow> fridge \<Rightarrow> product list" where
  "members st f = List.map_filter (lookup st) (products f)"

definition resolves :: "store \<Rightarrow> fridge \<Rightarrow> bool" where
  "resolves st f = list_all (\<lambda>i. lookup st i \<noteq> None) (products f)"

definition monitored :: "store \<Rightarrow> fridge list" where
  "monitored st = filter (\<lambda>f. webhookUrl f \<noteq> None) (Fridges st)"

definition expiredMembers :: "date \<Rightarrow> store \<Rightarrow> fridge \<Rightarrow> fridge \<times> product list" where
  "expiredMembers now st f = (f, filter (expired now) (members st f))"

definition resolved :: "(request \<Rightarrow> fetch_result) \<Rightarrow> request \<Rightarrow> bool" where
  "resolved fetch r = (case fetch r of Response status \<Rightarrow> True | Rejected \<Rightarrow> False)"

definition targetPaired :: "fridge \<Rightarrow> bool" where
  "targetPaired f = ((webhookUrl f = None) = (webhookSecret f = None))"

text \<open>
  The target of a collection is the pair of its two webhook fields. A collection of a
  later store keeps its target when it has none, or when the earlier store has a
  collection with the same id and the same target. A collection is registered by a body
  when both values of the body are present and are its target.
\<close>

definition target :: "fridge \<Rightarrow> string option \<times> string option" where
  "target f = (webhookUrl f, webhookSecret f)"

definition keepsTarget :: "store \<Rightarrow> fridge \<Rightarrow> bool" where
  "keepsTarget st f' =
     (target f' = (None, None) \<or>
      list_ex (\<lambda>f. fridge_id f = fridge_id f' \<and> target f = target f') (Fridges st))"

definition targetsKept :: "store \<Rightarrow> store \<Rightarrow> bool" where
  "targetsKept st st' = list_all (keepsTarget st) (Fridges st')"

definition registered :: "webhookBody \<Rightarrow> fridge \<Rightarrow> bool" where
  "registered body f' =
     (truthy (body_webhookUrl body) \<and> truthy (body_webhookSecret body) \<and>
      target f' = (body_webhookUrl body, body_webhookSecret body))"

definition targetsPaired :: "store \<Rightarrow> bool" where
  "targetsPaired st = list_all targetPaired (Fridges st)"

section \<open>Example data\<close>

definition exampleUser :: user where
  "exampleUser =
     \<lparr> username = ''anna'', firstName = ''Anna'', lastName = ''Berg'',
       user_email = ''anna@example.org'', user_id = ''7'', permissionLevel = 1 \<rparr>"

definition examplePayload :: payload where
  "examplePayload =
     \<lparr> sub = ''anna'', given_name = ''Anna'', family_name = ''Berg'',
       email = ''anna@example.org'', payload_id = ''7'', x_permission_level = 1 \<rparr>"

definition exampleVerify :: "string option \<Rightarrow> payload option" where
  "exampleVerify t = (if t = Some ''header.claims.signature'' then Some examplePayload else None)"

definition today :: date where "today = 1700000000000"
definition yesterday :: date where "yesterday = today - 86400000"
definition tomorrow :: date where "tomorrow = today + 86400000"

definition milk :: product where
  "milk = \<lparr> product_id = 10, expirationDate = yesterday, price = None,
            product_name = ''milk'', fridgeId = 1, category = None \<rparr>"

definition cheese :: product where
  "cheese = \<lparr> product_id = 11, expirationDate = tomorrow, price = Some 30,
              product_name = ''cheese'', fridgeId = 1, category = Some ''dairy'' \<rparr>"

definition kitchen :: fridge where
  "kitchen = \<lparr> fridge_id = 1, location = Some ''kitchen'', name = ''main'', ownerId = 7,
               products = [10, 11], temperature = Some 4,
               webhookUrl = Some ''https://a.example/hook'', webhookSecret = Some ''sa'' \<rparr>"

definition cellar :: fridge where
  "cellar = \<lparr> fridge_id = 2, location = None, name = ''cellar'', ownerId = 7,
              products = [], temperature = None,
              webhookUrl = Some ''https://b.example/hook'', webhookSecret = Some ''sb'' \<rparr>"

definition garage :: fridge where
  "garage = \<lparr> fridge_id = 3, location = None, name = ''garage'', ownerId = 8,
              products = [], temperature = None,
              webhookUrl = Some ''https://c.example/hook'', webhookSecret = Some ''sc'' \<rparr>"

definition exampleStore :: store where
  "exampleStore = \<lparr> Fridges = [kitchen, cellar, garage], Products = [milk, cheese], nextId = 12 \<rparr>"

text \<open>A network in which the second target refuses the connection, and one in which it
  answers with status 500.\<close>

definition cellarRefuses :: "request \<Rightarrow> fetch_result" where
  "cellarRefuses r = (if url r = ''https://b.example/hook'' then Rejected else Response 200)"

definition cellarFails :: "request \<Rightarrow> fetch_result" where
  "cellarFails r = (if url r = ''https://b.example/hook'' then Response 500 else Response 200)"

text \<open>
  A session of two fridges and three products, both fridges with a webhook, in which
  the first product of the first fridge is then deleted through the route of the second
  fridge: \<open>DELETE /fridge/1/product/2\<close>. The handler finds the product, finds the
  fridge of the route, does not find the product's id in that fridge's list, and
  deletes the product, so that the first fridge keeps the id of a product that is gone.
\<close>

definition exampleParse :: "string \<Rightarrow> date option" where
  "exampleParse s =
     (if s = ''2023-11-01'' then Some 1698796800000
      else if s = ''2023-11-02'' then Some 1698883200000
      else None)"

definition sessionOps :: "operation list" where
  "sessionOps =
     [CreateFridge (Some 7)
        \<lparr> body_name = Some ''main'', body_location = None, body_temperature = None \<rparr>,
      CreateFridge (Some 7)
        \<lparr> body_name = Some ''cellar'', body_location = None, body_temperature = None \<rparr>,
      CreateProduct exampleParse (Some 0)
        \<lparr> body_expirationDate = Some ''2023-11-01'', body_product_name = Some ''milk'',
          body_price = None, body_category = None, body_fridgeId = None \<rparr>,
      CreateProduct exampleParse (Some 0)
        \<lparr> body_expirationDate = Some ''2023-11-02'', body_product_name = Some ''eggs'',
          body_price = None, body_category = None, body_fridgeId = None \<rparr>,
      CreateProduct exampleParse (Some 1)
        \<lparr> body_expirationDate = Some ''2023-11-01'', body_product_name = Some ''wine'',
          body_price = None, body_category = None, body_fridgeId = None \<rparr>,
      RegisterWebhook (Some 0)
        \<lparr> body_webhookUrl = Some ''https://a.example/hook'', body_webhookSecret = Some ''sa'' \<rparr>,
      RegisterWebhook (Some 1)
        \<lparr> body_webhookUrl = Some ''https://b.example/hook'', body_webhookSecret = Some ''sb'' \<rparr>]"

definition danglingOps :: "operation list" where
  "danglingOps = sessionOps @ [DeleteProduct (Some 2) (Some 1)]"

definition mainFridge :: fridge where
  "mainFridge = \<lparr> fridge_id = 0, location = None, name = ''main'', ownerId = 7,
                  products = [2, 3], temperature = None,
                  webhookUrl = Some ''https://a.example/hook'', webhookSecret = Some ''sa'' \<rparr>"

definition cellarFridge :: fridge where
  "cellarFridge = \<lparr> fridge_id = 1, location = None, name = ''cellar'', ownerId = 7,
                    products = [4], temperature = None,
                    webhookUrl = Some ''https://b.example/hook'', webhookSecret = Some ''sb'' \<rparr>"

definition eggs :: product where
  "eggs = \<lparr> product_id = 3, expirationDate = 1698883200000, price = None,
            product_name = ''eggs'', fridgeId = 0, category = None \<rparr>"

definition wine :: product where
  "wine = \<lparr> product_id = 4, expirationDate = 1698796800000, price = None,
            product_name = ''wine'', fridgeId = 1, category = None \<rparr>"

definition spoiltMilk :: product where
  "spoiltMilk = \<lparr> product_id = 2, expirationDate = 1698796800000, price = None,
                  product_name = ''milk'', fridgeId = 0, category = None \<rparr>"

definition sessionStore :: store where
  "sessionStore =
     \<lparr> Fridges = [mainFridge, cellarFridge], Products = [spoiltMilk, eggs, wine], nextId = 5 \<rparr>"

definition danglingStore :: store where
  "danglingStore =
     \<lparr> Fridges = [mainFridge, cellarFridge], Products = [eggs, wine], nextId = 5 \<rparr>"

text \<open>
  The same session with a third fridge, which has a webhook and no products, created
  and registered before the product is deleted through the route of the second fridge.
\<close>

definition pantryOps :: "operation list" where
  "pantryOps =
     sessionOps @
     [CreateFridge (Some 7)
        \<lparr> body_name = Some ''pantry'', body_location = None, body_temperature = None \<rparr>,
      RegisterWebhook (Some 5)
        \<lparr> body_webhookUrl = Some ''https://c.example/hook'', body_webhookSecret = Some ''sc'' \<rparr>,
      DeleteProduct (Some 2) (Some 1)]"

definition pantryFridge :: fridge where
  "pantryFridge = \<lparr> fridge_id = 5, location = None, name = ''pantry'', ownerId = 7,
                    products = [], temperature = None,
                    webhookUrl = Some ''https://c.example/hook'', webhookSecret = Some ''sc'' \<rparr>"

definition pantryStore :: store where
  "pantryStore =
     \<lparr> Fridges = [mainFridge, cellarFridge, pantryFridge], Products = [eggs, wine], nextId = 6 \<rparr>"

section \<open>The capability gate\<close>

lemma word32_and_flag:
  assumes "0 \<le> r" "r < 2 ^ 32"
  shows "((word_of_int m :: 32 word) AND word_of_int r = 0) = (m AND r = 0)"
proof -
  have b: "0 \<le> m AND r" "m AND r \<le> r"
    using assms by (simp_all add: AND_upper2)
  have e: "(word_of_int m :: 32 word) AND word_of_int r = word_of_int (m AND r)"
    by (simp add: of_int_and_eq)
  have "(4294967296 dvd (m AND r)) = (m AND r = 0)"
  proof
    assume d: "4294967296 dvd (m AND r)"
    show "m AND r = 0"
    proof (rule ccontr)
      assume "m AND r \<noteq> 0"
      with b(1) have "0 < m AND r" by linarith
      with d have "4294967296 \<le> m AND r" by (rule zdvd_imp_le)
      with b(2) assms(2) show False by simp
    qed
  qed simp
  then have "((word_of_int (m AND r) :: 32 word) = 0) = (m AND r = 0)"
    by (simp add: word_of_int_eq_0_iff)
  with e show ?thesis by simp
qed

lemma bitand_js_flag:
  assumes "0 \<le> r" "r < 2 ^ 32"
  shows "(bitand_js (Some m) (Some r) \<noteq> 0) = (m AND r \<noteq> 0)"
  using word32_and_flag [OF assms, of m]
  by (simp add: bitand_js_def ToInt32_def signed_eq_0_iff)

lemma PermissionLevels_range:
  "required \<in> set PermissionLevels \<Longrightarrow> 0 \<le> required \<and> required < 2 ^ 32"
  by (auto simp: PermissionLevels_def READ_def CREATE_def UPDATE_def DELETE_def)

text \<open>
  C3. For every capability mask of a principal and every required flag among READ,
  CREATE, UPDATE and DELETE, \<open>hasPermission\<close> lets the request through if and only if
  the bitwise AND of mask and flag is not zero, and otherwise answers with the error of
  status 403. A mask of 1 is denied DELETE (8), a mask of 15 is granted it.
\<close>

theorem hasPermission_grants_iff:
  assumes "required \<in> set PermissionLevels"
  shows "(hasPermission (Some u) required = Next) = (permissionLevel u AND required \<noteq> 0)
       \<and> (hasPermission (Some u) required = NextErr (HttpError 403))
            = (permissionLevel u AND required = 0)
       \<and> hasPermission (Some (u\<lparr> permissionLevel := 1 \<rparr>)) DELETE = NextErr (HttpError 403)
       \<and> hasPermission (Some (u\<lparr> permissionLevel := 15 \<rparr>)) DELETE = Next"
proof -
  from PermissionLevels_range [OF assms]
  have g: "\<And>m. (bitand_js (Some m) (Some required) \<noteq> 0) = (m AND required \<noteq> 0)"
    by (simp add: bitand_js_flag)
  have d: "\<And>m. (bitand_js (Some m) (Some 8) \<noteq> 0) = (m AND 8 \<noteq> 0)"
    by (simp add: bitand_js_flag)
  show ?thesis
    using g [of "permissionLevel u"] d [of 1] d [of 15]
    by (simp add: hasPermission_def DELETE_def)
qed

theorem hasPermission_grants_iff_witness:
  "DELETE \<in> set PermissionLevels
   \<and> hasPermission (Some exampleUser) DELETE = NextErr (HttpError 403)
   \<and> hasPermission (Some (exampleUser\<lparr> permissionLevel := 15 \<rparr>)) DELETE = Next"
proof -
  have h: "DELETE \<in> set PermissionLevels" by (simp add: PermissionLevels_def)
  have e: "exampleUser\<lparr> permissionLevel := 1 \<rparr> = exampleUser"
    by (simp add: exampleUser_def)
  show ?thesis
    using h hasPermission_grants_iff [OF h, of exampleUser] by (simp add: e)
qed

section \<open>The token verifier\<close>

lemma split_js_nonempty: "split_js c s \<noteq> []"
  by (induction s) (auto split: list.splits)

lemma split_js_no_sep: "c \<notin> set s \<Longrightarrow> split_js c s = [s]"
  by (induction s) auto

lemma Bearer_header:
  "CHR '' '' \<notin> set t \<Longrightarrow>
   authenticationScheme (''Bearer '' @ t) = Some ''Bearer'' \<and> token (''Bearer '' @ t) = Some t"
  by (simp add: authenticationScheme_def token_def split_js_no_sep)

text \<open>
  C4. \<open>authenticateJWT\<close> answers with the error of status 401 exactly when the
  Authorization header is missing, or its first piece is not \<open>Bearer\<close>, or the
  verification of its second piece fails; in every other case it calls \<open>next()\<close>.
  For a token without a space that the verification accepts, presented as
  \<open>Bearer <token>\<close>, the user put on the request has the six claims of the token
  under the names username, firstName, lastName, email, id and permissionLevel.
\<close>

theorem authenticateJWT_rejects_iff:
  "((fst (authenticateJWT jwt_verify authorization) = NextErr (HttpError 401)) =
      (case authorization of
         None \<Rightarrow> True
       | Some h \<Rightarrow> authenticationScheme h \<noteq> Some ''Bearer'' \<or> jwt_verify (token h) = None))
   \<and> (fst (authenticateJWT jwt_verify authorization) \<noteq> NextErr (HttpError 401) \<longrightarrow>
        fst (authenticateJWT jwt_verify authorization) = Next)
   \<and> (CHR '' '' \<notin> set t \<and> jwt_verify (Some t) = Some p \<longrightarrow>
        authenticateJWT jwt_verify (Some (''Bearer '' @ t)) =
          (Next, None,
           Some \<lparr> username = sub p, firstName = given_name p, lastName = family_name p,
                  user_email = email p, user_id = payload_id p,
                  permissionLevel = x_permission_level p \<rparr>))"
proof (intro conjI impI)
  show "(fst (authenticateJWT jwt_verify authorization) = NextErr (HttpError 401)) =
      (case authorization of
         None \<Rightarrow> True
       | Some h \<Rightarrow> authenticationScheme h \<noteq> Some ''Bearer'' \<or> jwt_verify (token h) = None)"
    by (simp add: authenticateJWT_def authenticateJWT_try_def split: option.splits)
next
  assume "fst (authenticateJWT jwt_verify authorization) \<noteq> NextErr (HttpError 401)"
  then show "fst (authenticateJWT jwt_verify authorization) = Next"
    by (simp add: authenticateJWT_def split: sum.splits)
next
  assume a: "CHR '' '' \<notin> set t \<and> jwt_verify (Some t) = Some p"
  then have b: "authenticationScheme (''Bearer '' @ t) = Some ''Bearer''"
    and c: "token (''Bearer '' @ t) = Some t"
    using Bearer_header [of t] by simp_all
  show "authenticateJWT jwt_verify (Some (''Bearer '' @ t)) =
          (Next, None,
           Some \<lparr> username = sub p, firstName = given_name p, lastName = family_name p,
                  user_email = email p, user_id = payload_id p,
                  permissionLevel = x_permission_level p \<rparr>)"
    using a by (simp add: authenticateJWT_def authenticateJWT_try_def b c del: append.simps)
qed

theorem authenticateJWT_rejects_iff_witness:
  "CHR '' '' \<notin> set ''header.claims.signature''
   \<and> exampleVerify (Some ''header.claims.signature'') = Some examplePayload
   \<and> authenticateJWT exampleVerify (Some ''Bearer header.claims.signature'') =
       (Next, None, Some exampleUser)
   \<and> fst (authenticateJWT exampleVerify (Some ''Basic header.claims.signature''))
       = NextErr (HttpError 401)
   \<and> fst (authenticateJWT exampleVerify None) = NextErr (HttpError 401)
   \<and> fst (authenticateJWT exampleVerify (Some ''Bearer forged'')) = NextErr (HttpError 401)"
proof -
  have h: "CHR '' '' \<notin> set ''header.claims.signature''
           \<and> exampleVerify (Some ''header.claims.signature'') = Some examplePayload"
    by (simp add: exampleVerify_def)
  have s: "authenticationScheme ''Basic header.claims.signature'' = Some ''Basic''"
    by (simp add: authenticationScheme_def)
  have f: "authenticationScheme ''Bearer forged'' = Some ''Bearer''"
          "token ''Bearer forged'' = Some ''forged''"
    by (simp_all add: authenticationScheme_def token_def)
  have u: "\<lparr> username = sub examplePayload, firstName = given_name examplePayload,
             lastName = family_name examplePayload, user_email = email examplePayload,
             user_id = payload_id examplePayload,
             permissionLevel = x_permission_level examplePayload \<rparr> = exampleUser"
    by (simp add: examplePayload_def exampleUser_def)
  show ?thesis
    using h
      authenticateJWT_rejects_iff
        [of exampleVerify "Some ''Bearer header.claims.signature''" "''header.claims.signature''"
            examplePayload]
      authenticateJWT_rejects_iff
        [of exampleVerify "Some ''Basic header.claims.signature''" "''x''" examplePayload]
      authenticateJWT_rejects_iff [of exampleVerify None "''x''" examplePayload]
      authenticateJWT_rejects_iff [of exampleVerify "Some ''Bearer forged''" "''x''" examplePayload]
    by (simp add: s f u exampleVerify_def)
qed

section \<open>The scan reads and never writes\<close>

lemma checkProducts_store: "snd (checkProducts T is acc st) = st"
  by (induction "is" arbitrary: acc) (simp_all add: Product_findById_def split: option.splits)

lemma checkProducts_pair: "checkProducts T is acc st = (fst (checkProducts T is acc st), st)"
  using checkProducts_store [of T "is" acc st] by (simp add: prod_eq_iff)

lemma checkEach_store: "snd (checkEach T fs st) = st"
proof (induction fs)
  case Nil
  show ?case by simp
next
  case (Cons f fs)
  obtain r where p: "checkProducts T (products f) [] st = (r, st)"
    using checkProducts_pair by blast
  obtain q where e: "checkEach T fs st = (q, st)"
    using Cons.IH by (metis prod.collapse)
  show ?case
    by (cases r; cases q) (simp_all add: p e)
qed

lemma checkFridges_store: "snd (checkFridges T st) = st"
  by (simp add: checkFridges_def Fridge_find_webhookUrl_exists_def checkEach_store)

lemma checkFridges_pair: "checkFridges T st = (fst (checkFridges T st), st)"
  using checkFridges_store [of T st] by (simp add: prod_eq_iff)

lemma cleanOut_store: "snd (snd (cleanOut T fetch st)) = st"
  using checkFridges_pair [of T st]
  by (cases "fst (checkFridges T st)")
     (auto simp: cleanOut_def split: prod.splits option.splits sum.splits)

text \<open>
  C7. For every store and every reference instant, the store that \<open>checkFridges\<close>
  leaves is the store it started from: no fridge and no product is changed, added or
  removed, whether the scan returns or throws. The same holds for the whole cycle of
  \<open>cleanOut\<close>, whatever the network answers.
\<close>

theorem checkFridges_no_writes:
  "snd (checkFridges T st) = st
   \<and> Fridges (snd (checkFridges T st)) = Fridges st
   \<and> Products (snd (checkFridges T st)) = Products st
   \<and> snd (snd (cleanOut T fetch st)) = st"
proof -
  have "snd (checkFridges T st) = st" by (rule checkFridges_store)
  moreover have "snd (snd (cleanOut T fetch st)) = st" by (rule cleanOut_store)
  ultimately show ?thesis by simp
qed

theorem checkFridges_no_writes_witness:
  "snd (checkFridges today exampleStore) = exampleStore
   \<and> snd (snd (cleanOut today cellarRefuses exampleStore)) = exampleStore"
  using checkFridges_no_writes [of today exampleStore cellarRefuses] by simp

section \<open>What the scan returns\<close>

lemma checkProducts_resolved:
  "list_all (\<lambda>i. lookup st i \<noteq> None) is \<Longrightarrow>
   checkProducts T is acc st = (Inr (acc @ filter (expired T) (List.map_filter (lookup st) is)), st)"
proof (induction "is" arbitrary: acc)
  case Nil
  show ?case by (simp add: List.map_filter_simps)
next
  case (Cons i "is")
  from Cons.prems obtain p where p: "lookup st i = Some p" by auto
  from Cons.prems have rest: "list_all (\<lambda>i. lookup st i \<noteq> None) is" by simp
  have f: "Product_findById i st = (Some p, st)"
    using p by (simp add: Product_findById_def lookup_def)
  show ?case
    by (simp add: f p Cons.IH [OF rest] List.map_filter_simps expired_def)
qed

lemma checkEach_resolved:
  "list_all (resolves st) fs \<Longrightarrow> checkEach T fs st = (Inr (map (expiredMembers T st) fs), st)"
proof (induction fs)
  case Nil
  show ?case by simp
next
  case (Cons f fs)
  from Cons.prems have r: "resolves st f" and rest: "list_all (resolves st) fs" by simp_all
  have p: "checkProducts T (products f) [] st = (Inr (snd (expiredMembers T st f)), st)"
    using checkProducts_resolved [of st "products f" T "[]"] r
    by (simp add: resolves_def expiredMembers_def members_def)
  have z: "products f = [] \<Longrightarrow> snd (expiredMembers T st f) = []"
    by (simp add: expiredMembers_def members_def List.map_filter_simps)
  have e: "expiredMembers T st f = (f, snd (expiredMembers T st f))"
    by (simp add: expiredMembers_def)
  show ?case
    using z by (simp add: p Cons.IH [OF rest]) (metis e)
qed

lemma checkFridges_resolved:
  "list_all (resolves st) (monitored st) \<Longrightarrow>
   checkFridges T st = (Inr (map (expiredMembers T st) (monitored st)), st)"
  by (simp add: checkFridges_def Fridge_find_webhookUrl_exists_def monitored_def checkEach_resolved)

lemma checkProducts_unresolved:
  "\<not> list_all (\<lambda>i. lookup st i \<noteq> None) is \<Longrightarrow>
   checkProducts T is acc st = (Inl TypeError, st)"
proof (induction "is" arbitrary: acc)
  case Nil
  then show ?case by simp
next
  case (Cons i "is")
  show ?case
  proof (cases "lookup st i")
    case None
    then show ?thesis by (simp add: Product_findById_def lookup_def)
  next
    case (Some p)
    with Cons.prems have rest: "\<not> list_all (\<lambda>i. lookup st i \<noteq> None) is" by simp
    have f: "Product_findById i st = (Some p, st)"
      using Some by (simp add: Product_findById_def lookup_def)
    show ?thesis by (simp add: f Cons.IH [OF rest])
  qed
qed

lemma checkEach_unresolved:
  "\<not> list_all (resolves st) fs \<Longrightarrow> checkEach T fs st = (Inl TypeError, st)"
proof (induction fs)
  case Nil
  then show ?case by simp
next
  case (Cons f fs)
  show ?case
  proof (cases "resolves st f")
    case False
    then have d: "\<not> list_all (\<lambda>i. lookup st i \<noteq> None) (products f)"
      by (simp add: resolves_def)
    then have n: "products f \<noteq> []" by auto
    show ?thesis by (simp add: n checkProducts_unresolved [OF d])
  next
    case True
    with Cons.prems have rest: "\<not> list_all (resolves st) fs" by simp
    have q: "checkProducts T (products f) [] st
               = (Inr (filter (expired T) (List.map_filter (lookup st) (products f))), st)"
      using checkProducts_resolved [of st "products f" T "[]"] True
      by (simp add: resolves_def)
    show ?thesis
      by (cases "products f = []") (simp_all add: q Cons.IH [OF rest])
  qed
qed

lemma checkFridges_unresolved:
  "\<not> list_all (resolves st) (monitored st) \<Longrightarrow> checkFridges T st = (Inl TypeError, st)"
  by (simp add: checkFridges_def Fridge_find_webhookUrl_exists_def monitored_def checkEach_unresolved)

text \<open>
  The result of the scan, when there is one: for every monitored collection, in the
  order of the store, the collection with exactly those of its members whose expiration
  date is strictly earlier than the instant, in the order of its list. There is one
  exactly in the stores in which each reference held by a monitored collection
  resolves.
\<close>

lemma checkFridges_result:
  "(fst (checkFridges T st) = Inr r \<longrightarrow>
      r = map (\<lambda>f. (f, filter (\<lambda>p. expirationDate p < T) (members st f))) (monitored st))
   \<and> (list_all (resolves st) (monitored st) \<longrightarrow>
        fst (checkFridges T st)
          = Inr (map (\<lambda>f. (f, filter (\<lambda>p. expirationDate p < T) (members st f))) (monitored st))
        \<and> (\<forall>f \<in> set (monitored st). products f = [] \<longrightarrow>
             (\<exists>r'. fst (checkFridges T st) = Inr r' \<and> (f, []) \<in> set r')))"
proof -
  have e: "expiredMembers T st = (\<lambda>f. (f, filter (\<lambda>p. expirationDate p < T) (members st f)))"
    by (rule ext) (simp add: expiredMembers_def expired_def [abs_def])
  have z: "\<And>f. products f = [] \<Longrightarrow> expiredMembers T st f = (f, [])"
    by (simp add: expiredMembers_def members_def List.map_filter_simps)
  have c: "fst (checkFridges T st) = Inr (map (expiredMembers T st) (monitored st))"
    if "list_all (resolves st) (monitored st)"
    using checkFridges_resolved [OF that, of T] by simp
  have m: "(f, []) \<in> set (map (expiredMembers T st) (monitored st))"
    if "f \<in> set (monitored st)" "products f = []" for f
    using that z [of f] by (metis image_eqI list.set_map)
  have d: "r = map (expiredMembers T st) (monitored st)" if "fst (checkFridges T st) = Inr r"
  proof (cases "list_all (resolves st) (monitored st)")
    case True
    from c [OF True] that show ?thesis by simp
  next
    case False
    from checkFridges_unresolved [OF False, of T] that show ?thesis by simp
  qed
  show ?thesis
    using c d m by (simp add: e)
qed

lemma exampleStore_monitored: "monitored exampleStore = [kitchen, cellar, garage]"
  by (simp add: monitored_def exampleStore_def kitchen_def cellar_def garage_def)

lemma exampleStore_lookup:
  "lookup exampleStore 10 = Some milk" "lookup exampleStore 11 = Some cheese"
  by (simp_all add: lookup_def exampleStore_def milk_def cheese_def)

lemma exampleStore_members:
  "members exampleStore kitchen = [milk, cheese]"
  "members exampleStore cellar = []"
  "members exampleStore garage = []"
  by (simp_all add: members_def List.map_filter_simps exampleStore_lookup
        kitchen_def cellar_def garage_def)

lemma exampleStore_resolves: "list_all (resolves exampleStore) (monitored exampleStore)"
  by (simp add: exampleStore_monitored resolves_def exampleStore_lookup
        kitchen_def cellar_def garage_def)

lemma exampleStore_scan:
  "checkFridges today exampleStore
     = (Inr [(kitchen, [milk]), (cellar, []), (garage, [])], exampleStore)"
  using checkFridges_resolved [OF exampleStore_resolves, of today]
  by (simp add: exampleStore_monitored expiredMembers_def exampleStore_members expired_def
        milk_def cheese_def yesterday_def tomorrow_def today_def)

section \<open>The dispatch loop\<close>

lemma dispatch_resolved:
  "list_all (\<lambda>fe. resolved fetch (webhookRequest fe)) fes \<Longrightarrow>
   dispatch fetch fes sent = (None, sent @ map webhookRequest fes)"
proof (induction fes arbitrary: sent)
  case Nil
  show ?case by simp
next
  case (Cons fe fes)
  from Cons.prems obtain status where s: "fetch (webhookRequest fe) = Response status"
    by (auto simp: resolved_def split: fetch_result.splits)
  from Cons.prems have rest: "list_all (\<lambda>fe. resolved fetch (webhookRequest fe)) fes" by simp
  show ?case by (simp add: s Cons.IH [OF rest])
qed

lemma dispatch_rejected:
  "list_all (\<lambda>fe. resolved fetch (webhookRequest fe)) pre \<Longrightarrow>
   fetch (webhookRequest fe) = Rejected \<Longrightarrow>
   dispatch fetch (pre @ fe # post) sent =
     (Some FetchError, sent @ map webhookRequest pre @ [webhookRequest fe])"
proof (induction pre arbitrary: sent)
  case Nil
  then show ?case by simp
next
  case (Cons x pre)
  from Cons.prems obtain status where s: "fetch (webhookRequest x) = Response status"
    by (auto simp: resolved_def split: fetch_result.splits)
  from Cons.prems have rest: "list_all (\<lambda>fe. resolved fetch (webhookRequest fe)) pre" by simp
  show ?case by (simp add: s Cons.IH [OF rest Cons.prems(2)])
qed

lemma exampleStore_requests:
  "url (webhookRequest (kitchen, ps)) = ''https://a.example/hook''"
  "url (webhookRequest (cellar, ps)) = ''https://b.example/hook''"
  "url (webhookRequest (garage, ps)) = ''https://c.example/hook''"
  by (simp_all add: webhookRequest_def kitchen_def cellar_def garage_def)

text \<open>
  C10. When the scan returns and every outbound call of the cycle resolves to a
  response, \<open>cleanOut\<close> answers 204, has made exactly one call for each scanned
  fridge, in order, and leaves the store as it was. The result does not mention the
  statuses: two networks that both answer every call give the same result, whatever
  the statuses are.
\<close>

theorem cleanOut_statuses_ignored:
  assumes "fst (checkFridges T st) = Inr fes"
      and "list_all (\<lambda>fe. resolved fetch (webhookRequest fe)) fes"
  shows "cleanOut T fetch st = (Res 204, map webhookRequest fes, st)
       \<and> (list_all (\<lambda>fe. resolved fetch' (webhookRequest fe)) fes \<longrightarrow>
            cleanOut T fetch' st = cleanOut T fetch st)"
proof -
  have c: "checkFridges T st = (Inr fes, st)"
    using checkFridges_pair [of T st] assms(1) by simp
  have "cleanOut T g st = (Res 204, map webhookRequest fes, st)"
    if "list_all (\<lambda>fe. resolved g (webhookRequest fe)) fes" for g
    by (simp add: cleanOut_def c dispatch_resolved [OF that])
  with assms(2) show ?thesis by simp
qed

theorem cleanOut_statuses_ignored_witness:
  "fst (checkFridges today exampleStore) = Inr [(kitchen, [milk]), (cellar, []), (garage, [])]
   \<and> list_all (\<lambda>fe. resolved cellarFails (webhookRequest fe))
        [(kitchen, [milk]), (cellar, []), (garage, [])]
   \<and> cellarFails (webhookRequest (cellar, [])) = Response 500
   \<and> cleanOut today cellarFails exampleStore =
       (Res 204,
        [webhookRequest (kitchen, [milk]), webhookRequest (cellar, []), webhookRequest (garage, [])],
        exampleStore)"
proof -
  have a: "fst (checkFridges today exampleStore)
             = Inr [(kitchen, [milk]), (cellar, []), (garage, [])]"
    by (simp add: exampleStore_scan)
  have b: "list_all (\<lambda>fe. resolved cellarFails (webhookRequest fe))
             [(kitchen, [milk]), (cellar, []), (garage, [])]"
    by (simp add: resolved_def cellarFails_def exampleStore_requests)
  have c: "cellarFails (webhookRequest (cellar, [])) = Response 500"
    by (simp add: cellarFails_def exampleStore_requests)
  show ?thesis
    using a b c cleanOut_statuses_ignored [OF a b, of cellarFails] by simp
qed

text \<open>
  C1. With three targets of which the second refuses the connection, every remaining
  target should still be called and the cycle should end with success. The code calls
  the first and the second target, never the third, and passes the error on, so that
  the client gets status 500 and not 204. In the same loop a second target that answers
  with status 500 does not stop anything: all three targets are called and the cycle
  ends with 204.
\<close>

theorem cleanOut_refused_stops:
  "fst (checkFridges today exampleStore) = Inr [(kitchen, [milk]), (cellar, []), (garage, [])]
   \<and> cellarRefuses (webhookRequest (cellar, [])) = Rejected
   \<and> cleanOut today cellarRefuses exampleStore =
       (NextErr FetchError,
        [webhookRequest (kitchen, [milk]), webhookRequest (cellar, [])],
        exampleStore)
   \<and> clientStatus (fst (cleanOut today cellarRefuses exampleStore)) = Some 500
   \<and> webhookRequest (garage, []) \<notin> set (fst (snd (cleanOut today cellarRefuses exampleStore)))
   \<and> cleanOut today cellarFails exampleStore =
       (Res 204,
        [webhookRequest (kitchen, [milk]), webhookRequest (cellar, []), webhookRequest (garage, [])],
        exampleStore)"
proof -
  have r: "list_all (\<lambda>fe. resolved cellarRefuses (webhookRequest fe)) [(kitchen, [milk])]"
    by (simp add: resolved_def cellarRefuses_def exampleStore_requests)
  have j: "cellarRefuses (webhookRequest (cellar, [])) = Rejected"
    by (simp add: cellarRefuses_def exampleStore_requests)
  have d: "dispatch cellarRefuses ([(kitchen, [milk])] @ (cellar, []) # [(garage, [])]) []
             = (Some FetchError, [webhookRequest (kitchen, [milk]), webhookRequest (cellar, [])])"
    using dispatch_rejected [OF r j, of "[(garage, [])]" "[]"] by simp
  have c: "cleanOut today cellarRefuses exampleStore =
     (NextErr FetchError,
      [webhookRequest (kitchen, [milk]), webhookRequest (cellar, [])],
      exampleStore)"
    using d by (simp add: cleanOut_def exampleStore_scan)
  have u: "url (webhookRequest (garage, [])) \<noteq> url (webhookRequest (kitchen, [milk]))"
          "url (webhookRequest (garage, [])) \<noteq> url (webhookRequest (cellar, []))"
    by (simp_all add: exampleStore_requests)
  from u have n: "webhookRequest (garage, []) \<noteq> webhookRequest (kitchen, [milk])"
    "webhookRequest (garage, []) \<noteq> webhookRequest (cellar, [])"
    by metis+
  have a: "list_all (\<lambda>fe. resolved cellarFails (webhookRequest fe))
             [(kitchen, [milk]), (cellar, []), (garage, [])]"
    by (simp add: resolved_def cellarFails_def exampleStore_requests)
  have f: "cleanOut today cellarFails exampleStore =
       (Res 204,
        [webhookRequest (kitchen, [milk]), webhookRequest (cellar, []), webhookRequest (garage, [])],
        exampleStore)"
    using dispatch_resolved [OF a, of "[]"]
    by (simp add: cleanOut_def exampleStore_scan del: dispatch.simps)
  show ?thesis
    using j n by (simp add: c f exampleStore_scan)
qed

text \<open>
  In general: once the scan has returned, a rejected call ends the loop after the
  targets before it and that target, with the error passed on.
\<close>

lemma cleanOut_rejected_call:
  assumes "fst (checkFridges T st) = Inr (pre @ fe # post)"
      and "list_all (\<lambda>fe. resolved fetch (webhookRequest fe)) pre"
      and "fetch (webhookRequest fe) = Rejected"
  shows "cleanOut T fetch st =
           (NextErr FetchError, map webhookRequest pre @ [webhookRequest fe], st)"
proof -
  have c: "checkFridges T st = (Inr (pre @ fe # post), st)"
    using checkFridges_pair [of T st] assms(1) by simp
  show ?thesis
    by (simp add: cleanOut_def c dispatch_rejected [OF assms(2) assms(3)])
qed

section \<open>Two scans of the same store\<close>

text \<open>
  C8, as the claim states it, fails. The trigger takes the reference instant of its scan
  from the clock. In the example store, which no cycle changes, the trigger invoked
  today finds the milk expired in the kitchen; invoked again after tomorrow, with no
  change of the data in between, it finds the milk and the cheese.
\<close>

theorem cleanOut_twice_differs:
  "cleanOut today cellarFails exampleStore =
     (Res 204,
      [webhookRequest (kitchen, [milk]), webhookRequest (cellar, []), webhookRequest (garage, [])],
      exampleStore)
   \<and> cleanOut (tomorrow + 1) cellarFails (snd (snd (cleanOut today cellarFails exampleStore))) =
     (Res 204,
      [webhookRequest (kitchen, [milk, cheese]), webhookRequest (cellar, []),
       webhookRequest (garage, [])],
      exampleStore)
   \<and> fst (checkFridges today exampleStore)
       \<noteq> fst (checkFridges (tomorrow + 1) (snd (checkFridges today exampleStore)))"
proof -
  have later: "checkFridges (tomorrow + 1) exampleStore
                 = (Inr [(kitchen, [milk, cheese]), (cellar, []), (garage, [])], exampleStore)"
    using checkFridges_resolved [OF exampleStore_resolves, of "tomorrow + 1"]
    by (simp add: exampleStore_monitored expiredMembers_def exampleStore_members expired_def
          milk_def cheese_def yesterday_def tomorrow_def today_def)
  have r: "list_all (\<lambda>fe. resolved cellarFails (webhookRequest fe))
             [(kitchen, ps), (cellar, []), (garage, [])]" for ps
    by (simp add: resolved_def cellarFails_def exampleStore_requests)
  have first: "cleanOut today cellarFails exampleStore =
     (Res 204,
      [webhookRequest (kitchen, [milk]), webhookRequest (cellar, []), webhookRequest (garage, [])],
      exampleStore)"
    using dispatch_resolved [OF r, of "[milk]" "[]"]
    by (simp add: cleanOut_def exampleStore_scan del: dispatch.simps)
  have second: "cleanOut (tomorrow + 1) cellarFails exampleStore =
     (Res 204,
      [webhookRequest (kitchen, [milk, cheese]), webhookRequest (cellar, []),
       webhookRequest (garage, [])],
      exampleStore)"
    using dispatch_resolved [OF r, of "[milk, cheese]" "[]"]
    by (simp add: cleanOut_def later del: dispatch.simps)
  show ?thesis
    by (simp add: first second exampleStore_scan later)
qed

text \<open>
  C8, amended. A second scan, started in the store the first one left, gives the same
  result as the first (the same fridges with the same expired products, or the same
  error) when both have the same reference instant, and also when the second instant is
  later and no member of a monitored collection has its expiration date from the first
  instant on and before the second. The same holds for a scan after a whole cleanout
  cycle, whatever the network did.
\<close>

theorem checkFridges_twice:
  "checkFridges T (snd (checkFridges T st)) = checkFridges T st
   \<and> checkFridges T (snd (snd (cleanOut T fetch st))) = checkFridges T st
   \<and> (T1 \<le> T2 \<and>
        list_all (\<lambda>f. list_all (\<lambda>p. \<not> (T1 \<le> expirationDate p \<and> expirationDate p < T2))
                         (members st f)) (monitored st) \<longrightarrow>
        checkFridges T2 (snd (checkFridges T1 st)) = checkFridges T1 st
        \<and> checkFridges T2 (snd (snd (cleanOut T1 fetch st))) = checkFridges T1 st)"
proof -
  have same: "checkFridges T2 st = checkFridges T1 st"
    if le: "T1 \<le> T2"
    and none: "list_all (\<lambda>f. list_all (\<lambda>p. \<not> (T1 \<le> expirationDate p \<and> expirationDate p < T2))
                                (members st f)) (monitored st)"
  proof (cases "list_all (resolves st) (monitored st)")
    case False
    then show ?thesis by (simp add: checkFridges_unresolved)
  next
    case True
    have "expiredMembers T2 st f = expiredMembers T1 st f" if f: "f \<in> set (monitored st)" for f
    proof -
      have "expired T2 p = expired T1 p" if "p \<in> set (members st f)" for p
      proof -
        from none f that have "\<not> (T1 \<le> expirationDate p \<and> expirationDate p < T2)"
          by (simp add: list_all_iff)
        with le show ?thesis by (auto simp: expired_def)
      qed
      then have "filter (expired T2) (members st f) = filter (expired T1) (members st f)"
        by (simp cong: filter_cong)
      then show ?thesis by (simp add: expiredMembers_def)
    qed
    then have "map (expiredMembers T2 st) (monitored st) = map (expiredMembers T1 st) (monitored st)"
      by simp
    then show ?thesis by (simp add: checkFridges_resolved [OF True])
  qed
  show ?thesis
    using same by (simp add: checkFridges_store cleanOut_store)
qed

theorem checkFridges_twice_witness:
  "today \<le> today + 1000
   \<and> list_all (\<lambda>f. list_all (\<lambda>p. \<not> (today \<le> expirationDate p \<and> expirationDate p < today + 1000))
                    (members exampleStore f)) (monitored exampleStore)
   \<and> checkFridges (today + 1000) (snd (snd (cleanOut today cellarRefuses exampleStore)))
       = checkFridges today exampleStore
   \<and> checkFridges today (snd (checkFridges today exampleStore)) = checkFridges today exampleStore"
proof -
  have a: "today \<le> today + 1000" by simp
  have b: "list_all (\<lambda>f. list_all (\<lambda>p. \<not> (today \<le> expirationDate p \<and> expirationDate p < today + 1000))
                          (members exampleStore f)) (monitored exampleStore)"
    by (simp add: exampleStore_monitored exampleStore_members milk_def cheese_def
          yesterday_def tomorrow_def today_def)
  show ?thesis
    using a b checkFridges_twice [of today exampleStore cellarRefuses today "today + 1000"]
    by simp
qed

section \<open>Webhook registration\<close>

text \<open>
  C6. For a fridge that exists and a body in which \<open>webhookUrl\<close> or \<open>webhookSecret\<close>
  is missing (or is the empty string), \<open>registerWebhook\<close> passes on the error of
  status 400 and leaves the whole store, and with it the stored target of the fridge,
  as it was.
\<close>

theorem registerWebhook_missing:
  assumes "find (\<lambda>f. fridge_id f = i) (Fridges st) = Some f"
      and "\<not> truthy (body_webhookUrl body) \<or> \<not> truthy (body_webhookSecret body)"
  shows "registerWebhook (Some i) body st = (NextErr (HttpError 400), st)
       \<and> clientStatus (fst (registerWebhook (Some i) body st)) = Some 400"
  using assms by (auto simp add: registerWebhook_def Fridge_findById_def)

theorem registerWebhook_missing_witness:
  "find (\<lambda>f. fridge_id f = 2) (Fridges exampleStore) = Some cellar
   \<and> \<not> truthy (body_webhookSecret \<lparr> body_webhookUrl = Some ''https://d.example/hook'',
                                       body_webhookSecret = None \<rparr>)
   \<and> registerWebhook (Some 2)
        \<lparr> body_webhookUrl = Some ''https://d.example/hook'', body_webhookSecret = None \<rparr>
        exampleStore
       = (NextErr (HttpError 400), exampleStore)"
proof -
  have a: "find (\<lambda>f. fridge_id f = 2) (Fridges exampleStore) = Some cellar"
    by (simp add: exampleStore_def kitchen_def cellar_def)
  have b: "\<not> truthy (body_webhookSecret \<lparr> body_webhookUrl = Some ''https://d.example/hook'',
                                            body_webhookSecret = None \<rparr>)"
    by (simp add: truthy_def)
  show ?thesis
    using a b registerWebhook_missing [OF a disjI2 [OF b]] by simp
qed

section \<open>A dangling reference\<close>

lemma reachable_performAll: "reachable st \<Longrightarrow> reachable (performAll ops st)"
  by (induction ops arbitrary: st) (simp_all add: reachable_perform)

lemma sessionStore_reached: "performAll sessionOps emptyStore = sessionStore"
  by code_simp

lemma danglingStore_reached: "performAll danglingOps emptyStore = danglingStore"
  by code_simp

lemma danglingStore_reachable: "reachable danglingStore"
  using reachable_performAll [OF reachable_empty, of danglingOps]
  by (simp add: danglingStore_reached)

text \<open>
  C2. The store \<open>danglingStore\<close> is reached by the session above. Its first monitored
  fridge lists the ids 2 and 3, of which 2 has no product; the second lists 4. Skipping
  the dangling reference, as the claim says, the scan at \<open>today\<close> would return the
  first fridge with the eggs and the second with the wine. The code throws a TypeError
  at the first reference: no fridge is evaluated, \<open>cleanOut\<close> makes no call and passes
  the error on.
\<close>

theorem checkFridges_dangling_aborts:
  "performAll danglingOps emptyStore = danglingStore
   \<and> reachable danglingStore
   \<and> monitored danglingStore = [mainFridge, cellarFridge]
   \<and> lookup danglingStore 2 = None
   \<and> map (expiredMembers today danglingStore) (monitored danglingStore)
       = [(mainFridge, [eggs]), (cellarFridge, [wine])]
   \<and> checkFridges today danglingStore = (Inl TypeError, danglingStore)
   \<and> cleanOut today cellarFails danglingStore = (NextErr TypeError, [], danglingStore)"
proof -
  have m: "monitored danglingStore = [mainFridge, cellarFridge]"
    by code_simp
  have l: "lookup danglingStore 2 = None"
    by code_simp
  have e: "map (expiredMembers today danglingStore) (monitored danglingStore)
             = [(mainFridge, [eggs]), (cellarFridge, [wine])]"
    by code_simp
  have c: "checkFridges today danglingStore = (Inl TypeError, danglingStore)"
    by code_simp
  have o: "cleanOut today cellarFails danglingStore = (NextErr TypeError, [], danglingStore)"
    by (simp add: cleanOut_def c)
  show ?thesis
    using danglingStore_reached danglingStore_reachable m l e c o by simp
qed

lemma pantryStore_reached: "performAll pantryOps emptyStore = pantryStore"
  by code_simp

text \<open>
  C5. The store \<open>pantryStore\<close> is reached by the session with the third fridge. All
  three fridges are monitored. Every reference of the cellar and of the pantry
  resolves, and the pantry has no members: at \<open>today\<close> the expired members are the
  eggs for the main fridge, the wine for the cellar and none for the pantry, the
  empty list with no error. The code gives no list for any of them: the scan throws the
  TypeError at the dangling reference of the main fridge.
\<close>

theorem checkFridges_no_list_for_resolved:
  "performAll pantryOps emptyStore = pantryStore
   \<and> reachable pantryStore
   \<and> monitored pantryStore = [mainFridge, cellarFridge, pantryFridge]
   \<and> resolves pantryStore cellarFridge
   \<and> resolves pantryStore pantryFridge
   \<and> products pantryFridge = []
   \<and> map (expiredMembers today pantryStore) (monitored pantryStore)
       = [(mainFridge, [eggs]), (cellarFridge, [wine]), (pantryFridge, [])]
   \<and> fst (checkFridges today pantryStore) = Inl TypeError"
proof -
  have r: "reachable pantryStore"
    using reachable_performAll [OF reachable_empty, of pantryOps]
    by (simp add: pantryStore_reached)
  have m: "monitored pantryStore = [mainFridge, cellarFridge, pantryFridge]"
    by code_simp
  have c: "resolves pantryStore cellarFridge"
    by code_simp
  have p: "resolves pantryStore pantryFridge"
    by code_simp
  have z: "products pantryFridge = []"
    by (simp add: pantryFridge_def)
  have e: "map (expiredMembers today pantryStore) (monitored pantryStore)
             = [(mainFridge, [eggs]), (cellarFridge, [wine]), (pantryFridge, [])]"
    by code_simp
  have t: "fst (checkFridges today pantryStore) = Inl TypeError"
    by code_simp
  show ?thesis
    using pantryStore_reached r m c p z e t by simp
qed

section \<open>The two webhook fields are set together\<close>

lemma find_member: "find P xs = Some x \<Longrightarrow> x \<in> set xs"
  by (induction xs) (auto split: if_splits)

lemma set_deleteFirst: "set (deleteFirst P xs) \<subseteq> set xs"
  by (induction xs) auto

lemma Fridge_findById_member:
  "Fridge_findById i st = (Some f, st') \<Longrightarrow> f \<in> set (Fridges st) \<and> st' = st"
  by (auto simp: Fridge_findById_def dest: find_member)

lemma Fridge_findById_same: "Fridge_findById i st = (r, st') \<Longrightarrow> st' = st"
  by (simp add: Fridge_findById_def)

lemma Product_findById_same: "Product_findById i st = (r, st') \<Longrightarrow> st' = st"
  by (simp add: Product_findById_def)

lemma Product_deleteOne_Fridges: "Fridges (Product_deleteOne i st) = Fridges st"
  by (simp add: Product_deleteOne_def)

lemma deleteProducts_Fridges: "Fridges (deleteProducts is st) = Fridges st"
  by (induction "is" arbitrary: st) (simp_all add: Product_deleteOne_Fridges)

lemma Product_insert_Fridges: "Product_insert p st = (r, st') \<Longrightarrow> Fridges st' = Fridges st"
  by (auto simp: Product_insert_def Let_def split: if_splits)

lemma Product_save_Fridges: "Product_save p st = (r, st') \<Longrightarrow> Fridges st' = Fridges st"
  by (auto simp: Product_save_def split: if_splits)

subsection \<open>Every operation but the registration keeps the targets\<close>

lemma keepsTarget_member: "f \<in> set (Fridges st) \<Longrightarrow> keepsTarget st f"
  by (auto simp: keepsTarget_def list_ex_iff)

lemma targetsKept_subset: "set (Fridges st') \<subseteq> set (Fridges st) \<Longrightarrow> targetsKept st st'"
  by (auto simp: targetsKept_def list_all_iff keepsTarget_member)

lemma targetsKept_save:
  assumes "Fridge_save f' st1 = (r, st2)"
      and "Fridges st1 = Fridges st"
      and "f \<in> set (Fridges st)"
      and "fridge_id f' = fridge_id f" and "target f' = target f"
  shows "targetsKept st st2"
proof -
  have k: "keepsTarget st f'"
    using assms(3-5) by (auto simp: keepsTarget_def list_ex_iff)
  show ?thesis
    using assms(1,2) k
    by (auto simp: Fridge_save_def targetsKept_def list_all_iff keepsTarget_member split: if_splits)
qed

lemma targetsKept_insert:
  assumes "Fridge_insert f' st = (r, st2)" and "target f' = (None, None)"
  shows "targetsKept st st2"
proof (cases "validFridge f'")
  case False
  with assms(1) have "st2 = st" by (simp add: Fridge_insert_def)
  then show ?thesis by (simp add: targetsKept_subset)
next
  case True
  with assms(1) have f: "Fridges st2 = Fridges st @ [f'\<lparr> fridge_id := nextId st \<rparr>]"
    by (auto simp: Fridge_insert_def Let_def)
  have "keepsTarget st (f'\<lparr> fridge_id := nextId st \<rparr>)"
    using assms(2) by (simp add: keepsTarget_def target_def)
  then show ?thesis
    by (simp add: targetsKept_def f list_all_iff keepsTarget_member)
qed

lemma target_simps:
  "target (f\<lparr> products := ps \<rparr>) = target f"
  "target (assignFridge body f) = target f"
  "fridge_id (assignFridge body f) = fridge_id f"
  by (simp_all add: target_def assignFridge_def Let_def split: option.splits)

lemma create_kept: "targetsKept st (snd (FridgeController_create uid body st))"
proof -
  have n: "\<And>f r st'. Fridge_insert f st = (r, st') \<Longrightarrow> webhookUrl f = None \<Longrightarrow>
             webhookSecret f = None \<Longrightarrow> targetsKept st st'"
    by (auto intro: targetsKept_insert simp: target_def)
  show ?thesis
    by (auto simp: FridgeController_create_def Fridge_findOne_name_def targetsKept_subset
             split: option.splits prod.splits sum.splits dest: n)
qed

lemma edit_kept:
  "Fridge_findById j st = (Some f, st1) \<Longrightarrow>
   Fridge_save (assignFridge body f) st1 = (r, st2) \<Longrightarrow> targetsKept st st2"
  by (metis Fridge_findById_member targetsKept_save target_simps(2,3))

lemma putEdit_kept: "targetsKept st (snd (FridgeController_putEdit i body st))"
  by (auto simp: FridgeController_putEdit_def targetsKept_subset
           split: option.splits prod.splits sum.splits
           dest: edit_kept Fridge_findById_same)

lemma patchEdit_kept: "targetsKept st (snd (FridgeController_patchEdit i body st))"
  by (auto simp: FridgeController_patchEdit_def targetsKept_subset
           split: option.splits prod.splits sum.splits
           dest: edit_kept Fridge_findById_same)

lemma delete_kept: "targetsKept st (snd (FridgeController_delete i st))"
proof -
  have d: "\<And>is j. targetsKept st (Fridge_deleteOne j (deleteProducts is st))"
    using set_deleteFirst
    by (intro targetsKept_subset) (simp add: Fridge_deleteOne_def deleteProducts_Fridges)
  show ?thesis
    by (auto simp: FridgeController_delete_def d targetsKept_subset
             split: option.splits prod.splits dest: Fridge_findById_same)
qed

lemma product_create_kept:
  "targetsKept st (snd (ProductController_create Date_parse fid body st))"
proof -
  have i: "\<And>q r st'. Product_insert q st = (r, st') \<Longrightarrow> targetsKept st st'"
    by (auto dest!: Product_insert_Fridges simp: targetsKept_subset)
  have s: "targetsKept st st3"
    if "Product_insert q st = (r0, st1)" "Fridge_findById j st1 = (Some f, st2)"
       "Fridge_save (f\<lparr> products := products f @ [k] \<rparr>) st2 = (r, st3)"
    for q r0 st1 j f st2 k r st3
  proof -
    from that(1) have a: "Fridges st1 = Fridges st" by (rule Product_insert_Fridges)
    from that(2) have b: "f \<in> set (Fridges st1)" "st2 = st1"
      using Fridge_findById_member by blast+
    show ?thesis
      using targetsKept_save [OF that(3), of st f] a b by (simp add: target_simps)
  qed
  show ?thesis
    by (auto simp: ProductController_create_def Let_def targetsKept_subset
             split: option.splits prod.splits sum.splits
             dest: i s Fridge_findById_same)
qed

lemma product_putEdit_kept:
  "targetsKept st (snd (ProductController_putEdit castDate i body st))"
  by (auto simp: ProductController_putEdit_def targetsKept_subset
           split: option.splits prod.splits sum.splits
           dest!: Product_findById_same Product_save_Fridges)

lemma product_patchEdit_kept:
  "targetsKept st (snd (ProductController_patchEdit castDate i body st))"
  by (auto simp: ProductController_patchEdit_def targetsKept_subset
           split: option.splits prod.splits sum.splits
           dest!: Product_findById_same Product_save_Fridges)

lemma product_delete_kept:
  "targetsKept st (snd (ProductController_delete i fid st))"
proof -
  have e: "targetsKept st st3"
    if "Fridge_findById j st = (Some f, st2)"
       "Fridge_save (f\<lparr> products := remove1 k (products f) \<rparr>) st2 = (r, st3)"
    for j f st2 k r st3
  proof -
    from that(1) have b: "f \<in> set (Fridges st)" "st2 = st"
      using Fridge_findById_member by blast+
    show ?thesis
      using targetsKept_save [OF that(2), of st f] b by (simp add: target_simps)
  qed
  have s: "targetsKept st (Product_deleteOne m st3)"
    if "Fridge_findById j st = (Some f, st2)"
       "Fridge_save (f\<lparr> products := remove1 k (products f) \<rparr>) st2 = (r, st3)"
    for j f st2 k r st3 m
    using e [OF that] by (simp add: targetsKept_def Product_deleteOne_Fridges)
  show ?thesis
    by (auto simp: ProductController_delete_def targetsKept_subset
             split: option.splits prod.splits sum.splits
             dest!: Product_findById_same dest: s e Fridge_findById_same)
qed

lemma perform_kept:
  assumes "\<forall>i b. operation \<noteq> RegisterWebhook i b"
  shows "targetsKept st (perform operation st)"
proof (cases operation)
  case (RegisterWebhook i b)
  with assms show ?thesis by blast
qed (simp_all add: create_kept putEdit_kept patchEdit_kept delete_kept cleanOut_store
        targetsKept_subset product_create_kept product_putEdit_kept product_patchEdit_kept
        product_delete_kept)

subsection \<open>The registration writes both fields or none\<close>

lemma registerWebhook_writes:
  "list_all (\<lambda>f'. keepsTarget st f' \<or> registered body f')
     (Fridges (snd (registerWebhook i body st)))"
proof -
  have same: "list_all (\<lambda>f'. keepsTarget st f' \<or> registered body f') (Fridges st)"
    by (simp add: list_all_iff keepsTarget_member)
  have w: "list_all (\<lambda>f'. keepsTarget st f' \<or> registered body f') (Fridges st2)"
    if "truthy (body_webhookUrl body)" "truthy (body_webhookSecret body)"
       "Fridge_save (f\<lparr> webhookUrl := body_webhookUrl body,
                        webhookSecret := body_webhookSecret body \<rparr>) st = (r, st2)"
    for f r st2
  proof -
    have g: "registered body (f\<lparr> webhookUrl := body_webhookUrl body,
                                 webhookSecret := body_webhookSecret body \<rparr>)"
      using that(1,2) by (simp add: registered_def target_def)
    show ?thesis
      using that(3) g
      by (auto simp: Fridge_save_def list_all_iff keepsTarget_member split: if_splits)
  qed
  show ?thesis
    using same
    by (auto simp: registerWebhook_def split: option.splits prod.splits sum.splits
             dest!: Fridge_findById_same dest: w)
qed

subsection \<open>The invariant\<close>

lemma targetsKept_paired:
  assumes "targetsPaired st" and "targetsKept st st'"
  shows "targetsPaired st'"
proof -
  have "targetPaired f'" if "f' \<in> set (Fridges st')" for f'
  proof -
    from assms(2) that have "keepsTarget st f'"
      by (simp add: targetsKept_def list_all_iff)
    then consider "target f' = (None, None)"
      | f where "f \<in> set (Fridges st)" "target f = target f'"
      by (auto simp: keepsTarget_def list_ex_iff)
    then show ?thesis
    proof cases
      case 1
      then show ?thesis by (simp add: target_def targetPaired_def)
    next
      case 2
      from assms(1) 2(1) have "targetPaired f"
        by (simp add: targetsPaired_def list_all_iff)
      with 2(2) show ?thesis by (simp add: target_def targetPaired_def)
    qed
  qed
  then show ?thesis by (simp add: targetsPaired_def list_all_iff)
qed

lemma registered_paired: "registered body f \<Longrightarrow> targetPaired f"
  by (auto simp: registered_def target_def targetPaired_def truthy_def split: option.splits)

lemma registerWebhook_paired:
  assumes "targetsPaired st"
  shows "targetsPaired (snd (registerWebhook i body st))"
proof -
  have "targetPaired f'" if "f' \<in> set (Fridges (snd (registerWebhook i body st)))" for f'
  proof -
    from registerWebhook_writes [of st body i] that
    have "keepsTarget st f' \<or> registered body f'"
      by (simp add: list_all_iff)
    then show ?thesis
    proof
      assume "keepsTarget st f'"
      then have "targetsKept st (st\<lparr> Fridges := [f'] \<rparr>)"
        by (simp add: targetsKept_def)
      from targetsKept_paired [OF assms this] show ?thesis
        by (simp add: targetsPaired_def)
    next
      assume "registered body f'"
      then show ?thesis by (rule registered_paired)
    qed
  qed
  then show ?thesis by (simp add: targetsPaired_def list_all_iff)
qed

lemma perform_paired: "targetsPaired st \<Longrightarrow> targetsPaired (perform operation st)"
proof (cases "\<exists>i b. operation = RegisterWebhook i b")
  case True
  assume "targetsPaired st"
  with True show ?thesis by (auto simp: registerWebhook_paired)
next
  case False
  assume p: "targetsPaired st"
  from False have "\<forall>i b. operation \<noteq> RegisterWebhook i b" by simp
  from targetsKept_paired [OF p perform_kept [OF this]] show ?thesis .
qed

lemma reachable_paired: "reachable st \<Longrightarrow> targetsPaired st"
proof (induction rule: reachable.induct)
  case reachable_empty
  show ?case by (simp add: targetsPaired_def emptyStore_def)
next
  case (reachable_perform st operation)
  then show ?case by (simp add: perform_paired)
qed

subsection \<open>The scanner meets complete targets only\<close>

lemma checkEach_fridges:
  "checkEach T fs st = (Inr fes, st') \<Longrightarrow> map fst fes = fs"
proof (induction fs arbitrary: fes)
  case Nil
  then show ?case by simp
next
  case (Cons f fs)
  obtain q where e: "checkEach T fs st = (q, st)"
    using checkEach_store [of T fs st] by (metis prod.collapse)
  obtain r where p: "checkProducts T (products f) [] st = (r, st)"
    using checkProducts_pair by blast
  from Cons.prems show ?case
    using Cons.IH
    by (cases r; cases q) (auto simp: p e split: if_splits)
qed

lemma checkFridges_fridges:
  "fst (checkFridges T st) = Inr fes \<Longrightarrow> map fst fes = monitored st"
  using checkEach_fridges [of T "monitored st" st fes st] checkEach_store [of T "monitored st" st]
  by (simp add: checkFridges_def Fridge_find_webhookUrl_exists_def monitored_def prod_eq_iff)

lemma dispatch_sent:
  "set (snd (dispatch fetch fes sent)) \<subseteq> set sent \<union> webhookRequest ` set fes"
proof (induction fes arbitrary: sent)
  case Nil
  show ?case by simp
next
  case (Cons fe fes)
  show ?case
    using Cons.IH [of "sent @ [webhookRequest fe]"]
    by (cases "fetch (webhookRequest fe)") auto
qed

lemma cleanOut_sent:
  "r \<in> set (fst (snd (cleanOut T fetch st))) \<Longrightarrow>
   \<exists>fe. fst fe \<in> set (monitored st) \<and> r = webhookRequest fe"
proof (cases "fst (checkFridges T st)")
  case (Inl e)
  assume "r \<in> set (fst (snd (cleanOut T fetch st)))"
  with Inl checkFridges_pair [of T st] show ?thesis
    by (simp add: cleanOut_def split: prod.splits)
next
  case (Inr fes)
  assume a: "r \<in> set (fst (snd (cleanOut T fetch st)))"
  have c: "checkFridges T st = (Inr fes, st)"
    using checkFridges_pair [of T st] Inr by simp
  have "fst (snd (cleanOut T fetch st)) = snd (dispatch fetch fes [])"
    by (simp add: cleanOut_def c split: prod.splits option.splits)
  with a dispatch_sent [of fetch fes "[]"] obtain fe where fe: "fe \<in> set fes" "r = webhookRequest fe"
    by auto
  from fe(1) have "fst fe \<in> set (map fst fes)" by simp
  with checkFridges_fridges [OF Inr] have "fst fe \<in> set (monitored st)" by simp
  with fe(2) show ?thesis by blast
qed

lemma monitored_secret:
  assumes "targetsPaired st" and "f \<in> set (monitored st)"
  shows "webhookSecret f \<noteq> None"
proof -
  from assms(2) have m: "f \<in> set (Fridges st)" "webhookUrl f \<noteq> None"
    by (simp_all add: monitored_def)
  from assms(1) m(1) have "targetPaired f"
    by (simp add: targetsPaired_def list_all_iff)
  with m(2) show ?thesis
    by (cases "webhookSecret f") (simp_all add: targetPaired_def)
qed

text \<open>
  C9. In every store that the public operations reach from the empty store, each fridge
  has a \<open>webhookUrl\<close> if and only if it has a \<open>webhookSecret\<close>. From any store, an
  operation other than the registration leaves every fridge without a target or with
  the target that a fridge of the same id had before; after a registration every fridge
  has kept its target or has, as its target, the two values of the body, both present.
  Hence every fridge that the scanner selects by the existence of \<open>webhookUrl\<close> has a
  secret, and every outbound call of \<open>cleanOut\<close> carries one.
\<close>

theorem reachable_targets_paired:
  assumes "reachable st"
  shows "(\<forall>f \<in> set (Fridges st). (webhookUrl f \<noteq> None) = (webhookSecret f \<noteq> None))
       \<and> ((\<forall>i b. operation \<noteq> RegisterWebhook i b) \<longrightarrow> targetsKept st (perform operation st))
       \<and> list_all (\<lambda>f'. keepsTarget st f' \<or> registered body f')
            (Fridges (perform (RegisterWebhook i body) st))
       \<and> (\<forall>f \<in> set (fst (Fridge_find_webhookUrl_exists st)). webhookSecret f \<noteq> None)
       \<and> (\<forall>r \<in> set (fst (snd (cleanOut T fetch st))). body_secret r \<noteq> None)"
proof (intro conjI)
  have p: "targetsPaired st" using assms by (rule reachable_paired)
  show "\<forall>f \<in> set (Fridges st). (webhookUrl f \<noteq> None) = (webhookSecret f \<noteq> None)"
    using p by (auto simp: targetsPaired_def list_all_iff targetPaired_def)
  show "(\<forall>i b. operation \<noteq> RegisterWebhook i b) \<longrightarrow> targetsKept st (perform operation st)"
    using perform_kept by blast
  show "list_all (\<lambda>f'. keepsTarget st f' \<or> registered body f')
          (Fridges (perform (RegisterWebhook i body) st))"
    using registerWebhook_writes [of st body i] by simp
  show "\<forall>f \<in> set (fst (Fridge_find_webhookUrl_exists st)). webhookSecret f \<noteq> None"
    using monitored_secret [OF p]
    by (simp add: Fridge_find_webhookUrl_exists_def monitored_def)
  show "\<forall>r \<in> set (fst (snd (cleanOut T fetch st))). body_secret r \<noteq> None"
  proof
    fix r
    assume "r \<in> set (fst (snd (cleanOut T fetch st)))"
    from cleanOut_sent [OF this] obtain fe
      where fe: "fst fe \<in> set (monitored st)" "r = webhookRequest fe" by blast
    from monitored_secret [OF p fe(1)] show "body_secret r \<noteq> None"
      by (simp add: fe(2) webhookRequest_def)
  qed
qed

lemma sessionStore_reachable: "reachable sessionStore"
  using reachable_performAll [OF reachable_empty, of sessionOps]
  by (simp add: sessionStore_reached)

theorem reachable_targets_paired_witness:
  "reachable sessionStore
   \<and> Fridges sessionStore = [mainFridge, cellarFridge]
   \<and> webhookUrl mainFridge = Some ''https://a.example/hook''
   \<and> webhookSecret mainFridge \<noteq> None
   \<and> webhookSecret cellarFridge \<noteq> None"
proof -
  have f: "Fridges sessionStore = [mainFridge, cellarFridge]"
    by (simp add: sessionStore_def)
  have u: "webhookUrl mainFridge = Some ''https://a.example/hook''"
          "webhookUrl cellarFridge \<noteq> None"
    by (simp_all add: mainFridge_def cellarFridge_def)
  show ?thesis
    using sessionStore_reachable f u
      reachable_targets_paired [OF sessionStore_reachable]
    by simp
qed

end
